theory Spec2Isabelle
  imports Complex_Main
begin

section \<open>Values of the embedding\<close>

text \<open>
  The pair counter of \<^verbatim>\<open>pycorr/pair_counter.py\<close> is embedded method by method. An object
  is a record that every method takes and returns; a raise is the left summand of the
  result. Strings are ASCII. A float is a real number or one of the special values numpy
  produces instead of raising (a division by zero, a \<^verbatim>\<open>None\<close> stored into a float
  array): rounding and the sign of zero are not modelled, a zero divisor counts as \<^verbatim>\<open>+0.0\<close>.
\<close>

datatype error =
    PairCounterError string
  | IndexError
  | TypeError
  | ValueError
  | AttributeError
  | ZeroDivisionError
  | ShapeMismatchError

definition ebind :: "error + 'a \<Rightarrow> ('a \<Rightarrow> error + 'b) \<Rightarrow> error + 'b" where
  "ebind m f = (case m of Inl e \<Rightarrow> Inl e | Inr x \<Rightarrow> f x)"

text \<open>\<open>Infty True\<close> is \<^verbatim>\<open>inf\<close>, \<open>Infty False\<close> is \<^verbatim>\<open>-inf\<close>.\<close>

datatype f8 = Fin real | NaN | Infty bool

fun fneg :: "f8 \<Rightarrow> f8" where
  "fneg (Fin a) = Fin (- a)"
| "fneg NaN = NaN"
| "fneg (Infty s) = Infty (\<not> s)"

fun fadd :: "f8 \<Rightarrow> f8 \<Rightarrow> f8" where
  "fadd (Fin a) (Fin b) = Fin (a + b)"
| "fadd NaN _ = NaN"
| "fadd _ NaN = NaN"
| "fadd (Infty s) (Infty t) = (if s = t then Infty s else NaN)"
| "fadd (Infty s) (Fin _) = Infty s"
| "fadd (Fin _) (Infty t) = Infty t"

definition fsub :: "f8 \<Rightarrow> f8 \<Rightarrow> f8" where
  "fsub x y = fadd x (fneg y)"

fun fmul :: "f8 \<Rightarrow> f8 \<Rightarrow> f8" where
  "fmul (Fin a) (Fin b) = Fin (a * b)"
| "fmul NaN _ = NaN"
| "fmul _ NaN = NaN"
| "fmul (Infty s) (Infty t) = Infty (s = t)"
| "fmul (Infty s) (Fin b) = (if b = 0 then NaN else Infty (s = (0 < b)))"
| "fmul (Fin a) (Infty t) = (if a = 0 then NaN else Infty ((0 < a) = t))"

fun fdiv :: "f8 \<Rightarrow> f8 \<Rightarrow> f8" where
  "fdiv (Fin a) (Fin b) =
     (if b \<noteq> 0 then Fin (a / b) else if a = 0 then NaN else Infty (0 < a))"
| "fdiv NaN _ = NaN"
| "fdiv _ NaN = NaN"
| "fdiv (Infty s) (Infty t) = NaN"
| "fdiv (Infty s) (Fin b) = Infty (s = (0 \<le> b))"
| "fdiv (Fin a) (Infty t) = Fin 0"

text \<open>\<^verbatim>\<open>ndarray.prod()\<close> and \<^verbatim>\<open>ndarray.sum()\<close> of a one-dimensional array.\<close>

definition fprod :: "f8 list \<Rightarrow> f8" where
  "fprod xs = foldl fmul (Fin 1) xs"

definition fsum :: "f8 list \<Rightarrow> f8" where
  "fsum xs = foldl fadd (Fin 0) xs"

text \<open>An array of one or two dimensions; a two-dimensional one is the list of its rows.\<close>

datatype 'a nd = A1 "'a list" | A2 "'a list list"

fun nd_map :: "('a \<Rightarrow> 'b) \<Rightarrow> 'a nd \<Rightarrow> 'b nd" where
  "nd_map f (A1 xs) = A1 (map f xs)"
| "nd_map f (A2 rows) = A2 (map (map f) rows)"

text \<open>\<^verbatim>\<open>np.diff\<close> along the only axis of a vector, and along axis 0 of a matrix.\<close>

definition fdiff :: "f8 list \<Rightarrow> f8 list" where
  "fdiff v = map2 fsub (tl v) v"

definition fdiff_rows :: "f8 list list \<Rightarrow> f8 list list" where
  "fdiff_rows v = map2 (map2 fsub) (tl v) v"

text \<open>\<^verbatim>\<open>str.lower()\<close> on ASCII.\<close>

definition lower_char :: "char \<Rightarrow> char" where
  "lower_char c =
     (case map_of (zip ''ABCDEFGHIJKLMNOPQRSTUVWXYZ'' ''abcdefghijklmnopqrstuvwxyz'') c of
        Some d \<Rightarrow> d | None \<Rightarrow> c)"

definition lower :: "string \<Rightarrow> string" where
  "lower s = map lower_char s"

text \<open>\<^verbatim>\<open>str.index\<close>: the lowest position at which the substring starts.\<close>

fun find_sub :: "string \<Rightarrow> string \<Rightarrow> nat \<Rightarrow> nat option" where
  "find_sub needle [] i = (if needle = [] then Some i else None)"
| "find_sub needle (h # hs) i =
     (if take (length needle) (h # hs) = needle then Some i else find_sub needle hs (Suc i))"

definition str_index :: "string \<Rightarrow> string \<Rightarrow> error + nat" where
  "str_index hay needle =
     (case find_sub needle hay 0 of None \<Rightarrow> Inl ValueError | Some i \<Rightarrow> Inr i)"

text \<open>
  \<^verbatim>\<open>np.linspace(start, stop, num)\<close> with its default end point: \<open>num\<close> samples
  \<open>start + i * step\<close>, the last one set to \<open>stop\<close>.
\<close>

definition linspace :: "real \<Rightarrow> real \<Rightarrow> nat \<Rightarrow> real list" where
  "linspace start stop num =
     (if num = 0 then []
      else if num = 1 then [start]
      else map (\<lambda>i. real i * ((stop - start) / real (num - 1)) + start) [0..<num - 1] @ [stop])"

text \<open>
  \<^verbatim>\<open>np.allclose(a, b)\<close> with the default tolerances, on arrays of one length:
  \<open>|a - b| \<le> atol + rtol * |b|\<close> at every index.
\<close>

definition isclose :: "real \<Rightarrow> real \<Rightarrow> bool" where
  "isclose a b = (\<bar>a - b\<bar> \<le> 1 / 10 ^ 8 + 1 / 10 ^ 5 * \<bar>b\<bar>)"

definition allclose :: "real list \<Rightarrow> real list \<Rightarrow> bool" where
  "allclose a b = list_all (\<lambda>(x, y). isclose x y) (zip a b)"

section \<open>The counter object\<close>

text \<open>A position array: its element type and its values.\<close>

datatype ndarray = NdArray (dtype: string) (elems: "real list")

text \<open>
  What \<^verbatim>\<open>boxsize\<close> can hold: a Python number, a tuple or list of numbers, or a numpy
  vector.
\<close>

datatype boxvalue = Number real | Sequence "real list" | NdVector "f8 list"

text \<open>The normalization is a Python int for plain counts and a float for weights.\<close>

datatype number = PyInt int | PyFloat real

record counter =
  mode :: string
  nthreads :: int
  positions1 :: "ndarray list"
  positions2 :: "ndarray option list"
  autocorr :: bool
  weight_type :: "string option"
  weights1 :: "real list option"
  weights2 :: "real list option"
  edges :: "real list list"
  bin_type :: string
  los :: string
  boxsize :: "boxvalue option"
  output_sepavg :: bool
  wcounts :: "f8 nd"
  sep :: "f8 nd"
  norm_attr :: number

text \<open>
  An object before \<^verbatim>\<open>__init__\<close> has assigned anything. Both constructors assign every
  attribute before they read it, so these values are never observed.
\<close>

definition blank :: counter where
  "blank = \<lparr>mode = [], nthreads = 0, positions1 = [], positions2 = [], autocorr = False,
     weight_type = None, weights1 = None, weights2 = None, edges = [], bin_type = [],
     los = [], boxsize = None, output_sepavg = False, wcounts = A1 [], sep = A1 [],
     norm_attr = PyInt 0\<rparr>"

subsection \<open>Properties\<close>

definition shape :: "'a counter_scheme \<Rightarrow> int list" where
  "shape self = map (\<lambda>e. int (length e) - 1) (edges self)"

definition ndim :: "'a counter_scheme \<Rightarrow> nat" where
  "ndim self = length (edges self)"

text \<open>The property \<^verbatim>\<open>periodic\<close> is \<^verbatim>\<open>self.boxsize is None\<close>.\<close>

definition periodic :: "'a counter_scheme \<Rightarrow> bool" where
  "periodic self = (boxsize self = None)"

subsection \<open>Edges and bin type\<close>

text \<open>
  \<^verbatim>\<open>_set_bin_type\<close>. With \<^verbatim>\<open>auto\<close> the attribute becomes \<^verbatim>\<open>lin\<close> when the first
  edges are evenly spaced within the tolerances; the source has no other branch.
\<close>

definition set_bin_type :: "string \<Rightarrow> 'a counter_scheme \<Rightarrow> error + 'a counter_scheme" where
  "set_bin_type bt self0 =
     (let self = self0\<lparr>bin_type := lower bt\<rparr> in
      if bin_type self \<notin> set [''lin'', ''custom'', ''auto''] then
        Inl (PairCounterError ''bin type should be one of ['lin', 'custom', 'auto']'')
      else if bin_type self = ''auto'' then
        (case edges self of
           [] \<Rightarrow> Inl IndexError
         | e # _ \<Rightarrow>
             if e = [] then Inl IndexError
             else if allclose e (linspace (hd e) (last e) (length e)) then
               Inr (self\<lparr>bin_type := ''lin''\<rparr>)
             else Inr self)
      else Inr self)"

text \<open>
  The \<^verbatim>\<open>edges\<close> argument: one array of bin edges (\<^verbatim>\<open>np.ndim(edges[0]) == 0\<close>), or a
  tuple of arrays.
\<close>

datatype edges_arg = EdgeArray "real list" | EdgeTuple "real list list"

definition promote_edges :: "edges_arg \<Rightarrow> error + real list list" where
  "promote_edges e =
     (case e of
        EdgeArray [] \<Rightarrow> Inl IndexError
      | EdgeArray (x # xs) \<Rightarrow> Inr [x # xs]
      | EdgeTuple [] \<Rightarrow> Inl IndexError
      | EdgeTuple (a # as) \<Rightarrow> Inr (a # as))"

definition set_edges ::
  "edges_arg \<Rightarrow> string \<Rightarrow> 'a counter_scheme \<Rightarrow> error + 'a counter_scheme" where
  "set_edges e bt self0 =
     ebind (promote_edges e) (\<lambda>es.
       let self = self0\<lparr>edges := es\<rparr> in
       if mode self \<in> set [''smu'', ''rppi''] then
         if \<not> ndim self = 2 then
           Inl (PairCounterError
             (''A tuple of edges should be provided to pair counter in mode '' @ mode self))
         else set_bin_type bt self
       else
         if \<not> ndim self = 1 then
           Inl (PairCounterError
             (''Only one edge array should be provided to pair counter in mode '' @ mode self))
         else set_bin_type bt self)"

subsection \<open>Positions\<close>

text \<open>
  The conversions \<^verbatim>\<open>utils.cartesian_to_sky\<close> and \<^verbatim>\<open>utils.sky_to_cartesian\<close> belong to a
  module that is not part of the sources: they are parameters \<open>c2s\<close> and \<open>s2c\<close>.
\<close>

type_synonym conversion = "ndarray list \<Rightarrow> error + ndarray list"

fun same_size_and_type :: "nat \<Rightarrow> string \<Rightarrow> ndarray list \<Rightarrow> error + unit" where
  "same_size_and_type sz dt [] = Inr ()"
| "same_size_and_type sz dt (p # ps) =
     (if length (elems p) \<noteq> sz then
        Inl (PairCounterError ''All position arrays should be of the same size'')
      else if dtype p \<noteq> dt then
        Inl (PairCounterError ''All position arrays should be of the same type'')
      else same_size_and_type sz dt ps)"

definition check_positions ::
  "conversion \<Rightarrow> conversion \<Rightarrow> string \<Rightarrow> string \<Rightarrow> ndarray list \<Rightarrow> error + ndarray list" where
  \<open>check_positions c2s s2c md position_type positions0 =
     ebind
       (if md = ''theta'' then
          ebind
            (if position_type = ''xyz'' then ebind (c2s positions0) (\<lambda>p. Inr (drop 1 p))
             else if position_type = ''rdz'' then Inr (take 2 positions0)
             else if position_type \<noteq> ''rd'' then
               Inl (PairCounterError (''For mode = '' @ md @
                 '', position type should be one of ["xyz", "rdz", "rd"]''))
             else Inr positions0)
            (\<lambda>p. if length p \<noteq> 2 then
                   Inl (PairCounterError (''For mode = '' @ md @
                     '', please provide a list of 2 arrays for positions''))
                 else Inr p)
        else
          ebind
            (if position_type = ''rdd'' then s2c positions0
             else if position_type \<noteq> ''xyz'' then
               Inl (PairCounterError (''For mode = '' @ md @
                 '', position type should be one of ["xyz", "rdd"]''))
             else Inr positions0)
            (\<lambda>p. if length p \<noteq> 3 then
                   Inl (PairCounterError (''For mode = '' @ md @
                     '', please provide a list of 3 arrays for positions''))
                 else Inr p))
       (\<lambda>positions.
          case positions of
            [] \<Rightarrow> Inl IndexError
          | p0 # rest \<Rightarrow>
              ebind (same_size_and_type (length (elems p0)) (dtype p0) rest)
                (\<lambda>_. Inr positions))\<close>

definition set_positions ::
  "conversion \<Rightarrow> conversion \<Rightarrow> ndarray list \<Rightarrow> ndarray list option \<Rightarrow> string \<Rightarrow>
     'a counter_scheme \<Rightarrow> error + 'a counter_scheme" where
  "set_positions c2s s2c p1 p2 position_type0 self =
     (let position_type = lower position_type0;
          position_type =
            (if position_type = ''auto'' then (if mode self = ''theta'' then ''rd'' else ''xyz'')
             else position_type)
      in ebind (check_positions c2s s2c (mode self) position_type p1) (\<lambda>q1.
           let self1 = self\<lparr>positions1 := q1, autocorr := (p2 = None)\<rparr> in
           case p2 of
             None \<Rightarrow> Inr (self1\<lparr>positions2 := replicate (length q1) None\<rparr>)
           | Some r2 \<Rightarrow>
               ebind (check_positions c2s s2c (mode self) position_type r2) (\<lambda>q2.
                 Inr (self1\<lparr>positions2 := map Some q2\<rparr>))))"

subsection \<open>Weights\<close>

definition set_weight_type ::
  "string option \<Rightarrow> 'a counter_scheme \<Rightarrow> error + 'a counter_scheme" where
  "set_weight_type wt self =
     (if wt \<notin> set [None, Some ''auto'', Some ''pair_product''] then
        Inl (PairCounterError
          ''weight_type should be one of [None, 'auto', 'pair_product']'')
      else Inr (self\<lparr>weight_type := wt\<rparr>))"

text \<open>\<^verbatim>\<open>len(self.positions1[0])\<close> and \<^verbatim>\<open>len(self.positions2[0])\<close>.\<close>

definition size1 :: "'a counter_scheme \<Rightarrow> error + nat" where
  "size1 self = (case positions1 self of [] \<Rightarrow> Inl IndexError | p # _ \<Rightarrow> Inr (length (elems p)))"

definition size2 :: "'a counter_scheme \<Rightarrow> error + nat" where
  "size2 self =
     (case positions2 self of
        [] \<Rightarrow> Inl IndexError
      | None # _ \<Rightarrow> Inl TypeError
      | Some p # _ \<Rightarrow> Inr (length (elems p)))"

definition check_weights :: "real list option \<Rightarrow> nat \<Rightarrow> error + unit" where
  "check_weights weights sz =
     (case weights of
        None \<Rightarrow> Inl TypeError
      | Some w \<Rightarrow>
          if length w \<noteq> sz then
            Inl (PairCounterError
              ''Weight array should be of the same length as position arrays'')
          else Inr ())"

text \<open>
  The checks of \<^verbatim>\<open>_set_weights\<close> on which weights are given, in the order of the source:
  weights for a second catalog that does not exist, then weights for one catalog only.
\<close>

definition weights_presence ::
  "real list option \<Rightarrow> real list option \<Rightarrow> 'a counter_scheme \<Rightarrow> error + unit" where
  "weights_presence w1 w2 self =
     (if autocorr self \<and> w2 \<noteq> None then
        Inl (PairCounterError ''weights2 are provided, but not positions2'')
      else if w1 = None then
        (if w2 \<noteq> None then Inl (PairCounterError ''weights2 are provided, but not weights1'')
         else Inr ())
      else if autocorr self then
        (if w2 \<noteq> None then Inl (PairCounterError ''weights2 are provided, but not positions2'')
         else Inr ())
      else if w2 = None then Inl (PairCounterError ''weights1 are provided, but not weights2'')
      else Inr ())"

definition set_weights ::
  "real list option \<Rightarrow> real list option \<Rightarrow> string option \<Rightarrow>
     'a counter_scheme \<Rightarrow> error + 'a counter_scheme" where
  "set_weights w1 w2 wt self0 =
     ebind (set_weight_type wt self0) (\<lambda>self1.
     ebind (weights_presence w1 w2 self1) (\<lambda>_.
       let self2 =
         (if weight_type self1 = Some ''auto'' then
            (if w1 = None then self1\<lparr>weight_type := None\<rparr>
             else self1\<lparr>weight_type := Some ''pair_product''\<rparr>)
          else self1)
       in
         if weight_type self2 = None then Inr (self2\<lparr>weights1 := None, weights2 := None\<rparr>)
         else
           ebind (size1 self2) (\<lambda>n1.
           ebind (check_weights w1 n1) (\<lambda>_.
             let self3 = self2\<lparr>weights1 := w1, weights2 := w2\<rparr> in
             if \<not> autocorr self3 then
               ebind (size2 self3) (\<lambda>n2.
               ebind (check_weights w2 n2) (\<lambda>_. Inr self3))
             else Inr self3))))"

subsection \<open>Line of sight and box\<close>

definition set_los :: "string \<Rightarrow> 'a counter_scheme \<Rightarrow> error + 'a counter_scheme" where
  "set_los l self =
     (if l \<notin> set [''midpoint'', ''endpoint'', ''firstpoint'', ''x'', ''y'', ''z''] then
        Inl (PairCounterError
          ''los should be one of ['midpoint', 'endpoint', 'firstpoint', 'x', 'y', 'z']'')
      else Inr (self\<lparr>los := l\<rparr>))"

text \<open>
  \<^verbatim>\<open>a = np.empty(3, dtype='f8'); a[:] = boxsize\<close>: a number fills the three entries, a
  sequence of three is copied, a sequence of one is repeated, and \<^verbatim>\<open>None\<close> is stored as
  \<^verbatim>\<open>nan\<close>.
\<close>

definition fill3 :: "boxvalue option \<Rightarrow> error + f8 list" where
  "fill3 b =
     (case b of
        None \<Rightarrow> Inr (replicate 3 NaN)
      | Some (Number x) \<Rightarrow> Inr (replicate 3 (Fin x))
      | Some (Sequence xs) \<Rightarrow>
          if length xs = 3 then Inr (map Fin xs)
          else if length xs = 1 then Inr (replicate 3 (Fin (hd xs)))
          else Inl ValueError
      | Some (NdVector xs) \<Rightarrow>
          if length xs = 3 then Inr xs
          else if length xs = 1 then Inr (replicate 3 (hd xs))
          else Inl ValueError)"

definition set_boxsize ::
  "boxvalue option \<Rightarrow> 'a counter_scheme \<Rightarrow> error + 'a counter_scheme" where
  "set_boxsize b self0 =
     (let self = self0\<lparr>boxsize := b\<rparr> in
      if periodic self then
        ebind (fill3 b) (\<lambda>v. Inr (self\<lparr>boxsize := Some (NdVector v)\<rparr>))
      else Inr self)"

subsection \<open>Default separation\<close>

text \<open>
  \<^verbatim>\<open>np.empty(shape)\<close> for a two-dimensional shape, and the assignment
  \<^verbatim>\<open>a[...] = v\<close> of a vector to it: numpy aligns the vector with the last axis, so the
  vector must have as many entries as a row (or one entry), and becomes every row.
\<close>

definition empty2 :: "int list \<Rightarrow> error + nat \<times> nat" where
  "empty2 shp =
     (case shp of
        [r, c] \<Rightarrow> if r < 0 \<or> c < 0 then Inl ValueError else Inr (nat r, nat c)
      | _ \<Rightarrow> Inl ValueError)"

definition assign_all :: "nat \<times> nat \<Rightarrow> 'a list \<Rightarrow> error + 'a list list" where
  "assign_all rc v =
     (case rc of (r, c) \<Rightarrow>
        if length v = c then Inr (replicate r v)
        else if length v = 1 then Inr (replicate r (replicate c (hd v)))
        else Inl ValueError)"

definition midpoints :: "real list \<Rightarrow> real list" where
  "midpoints e = map2 (\<lambda>a b. (a + b) / 2) (tl e) (butlast e)"

definition set_default_sep :: "'a counter_scheme \<Rightarrow> error + 'a counter_scheme" where
  "set_default_sep self =
     (case edges self of
        [] \<Rightarrow> Inl IndexError
      | e # _ \<Rightarrow>
          let s = map Fin (midpoints e) in
          if ndim self = 2 then
            ebind (empty2 (shape self)) (\<lambda>rc.
            ebind (assign_all rc s) (\<lambda>m. Inr (self\<lparr>sep := A2 m\<rparr>)))
          else Inr (self\<lparr>sep := A1 s\<rparr>))"

text \<open>
  The default separations in the words of the specification: the midpoint of the bin of
  the first dimension, \<open>(edges[i] + edges[i+1])/2\<close>, at every bin of the second
  dimension when there is one.
\<close>

definition spec_default_sep :: "real list list \<Rightarrow> f8 nd" where
  "spec_default_sep es =
     (case es of
        [e] \<Rightarrow> A1 (map Fin (midpoints e))
      | [e, e'] \<Rightarrow> A2 (map (\<lambda>m. replicate (length e' - 1) (Fin m)) (midpoints e))
      | _ \<Rightarrow> A1 [])"

subsection \<open>Normalization\<close>

definition normalization :: "'a counter_scheme \<Rightarrow> error + number" where
  "normalization self =
     (if weight_type self = None then
        if autocorr self then
          ebind (size1 self) (\<lambda>n. Inr (PyInt (int n * (int n - 1))))
        else
          ebind (size1 self) (\<lambda>n. ebind (size2 self) (\<lambda>m. Inr (PyInt (int n * int m))))
      else if autocorr self then
        (case weights1 self of
           None \<Rightarrow> Inl AttributeError
         | Some w \<Rightarrow> Inr (PyFloat ((sum_list w)\<^sup>2 - sum_list (map (\<lambda>x. x\<^sup>2) w))))
      else
        (case weights1 self of
           None \<Rightarrow> Inl AttributeError
         | Some w \<Rightarrow>
             (case weights2 self of
                None \<Rightarrow> Inl AttributeError
              | Some v \<Rightarrow> Inr (PyFloat (sum_list w * sum_list v)))))"

subsection \<open>Thread count\<close>

text \<open>
  \<^verbatim>\<open>int(s)\<close> of an ASCII string: the blanks around (the space and the characters 9 to 13,
  the ones C's \<^verbatim>\<open>isspace\<close> knows) are stripped, one sign may lead, and the rest is decimal
  digits, with single underscores allowed between two digits. The cap on the number of
  digits that later interpreters add (4300 by default) is not modelled.
\<close>

definition is_space :: "char \<Rightarrow> bool" where
  "is_space c = ((of_char c :: nat) \<in> set [9, 10, 11, 12, 13, 32])"

definition strip :: "string \<Rightarrow> string" where
  "strip s = rev (dropWhile is_space (rev (dropWhile is_space s)))"

definition digit_of :: "char \<Rightarrow> nat option" where
  "digit_of c = map_of (zip ''0123456789'' [0, 1, 2, 3, 4, 5, 6, 7, 8, 9]) c"

fun parse_digits :: "string \<Rightarrow> nat \<Rightarrow> nat option" where
  "parse_digits [] acc = Some acc"
| "parse_digits [c] acc =
     (case digit_of c of None \<Rightarrow> None | Some v \<Rightarrow> Some (10 * acc + v))"
| "parse_digits (c # d # ds) acc =
     (if c = CHR ''_'' then
        (case digit_of d of None \<Rightarrow> None | Some v \<Rightarrow> parse_digits ds (10 * acc + v))
      else
        (case digit_of c of None \<Rightarrow> None | Some v \<Rightarrow> parse_digits (d # ds) (10 * acc + v)))"

definition parse_decimal :: "string \<Rightarrow> nat option" where
  "parse_decimal s =
     (case s of
        [] \<Rightarrow> None
      | c # cs \<Rightarrow> (case digit_of c of None \<Rightarrow> None | Some v \<Rightarrow> parse_digits cs v))"

definition py_int :: "string \<Rightarrow> error + int" where
  "py_int s =
     (case strip s of
        [] \<Rightarrow> Inl ValueError
      | c # cs \<Rightarrow>
          if c = CHR ''-'' then
            (case parse_decimal cs of None \<Rightarrow> Inl ValueError | Some n \<Rightarrow> Inr (- int n))
          else if c = CHR ''+'' then
            (case parse_decimal cs of None \<Rightarrow> Inl ValueError | Some n \<Rightarrow> Inr (int n))
          else
            (case parse_decimal (c # cs) of None \<Rightarrow> Inl ValueError | Some n \<Rightarrow> Inr (int n)))"

text \<open>
  For comparison with \<^verbatim>\<open>int\<close>: the decimal numeral of an integer as \<^verbatim>\<open>str\<close> writes it, and
  the number that a string of decimal digits denotes.
\<close>

definition digit_char :: "nat \<Rightarrow> char" where
  "digit_char d = ''0123456789'' ! d"

fun decimal :: "nat \<Rightarrow> string" where
  "decimal n =
     (if n < 10 then [digit_char n] else decimal (n div 10) @ [digit_char (n mod 10)])"

declare decimal.simps [simp del]

definition str_int :: "int \<Rightarrow> string" where
  "str_int z = (if z < 0 then CHR ''-'' # decimal (nat (- z)) else decimal (nat z))"

definition is_digit :: "char \<Rightarrow> bool" where
  "is_digit c = (c \<in> set ''0123456789'')"

definition decimal_value :: "string \<Rightarrow> nat" where
  "decimal_value s = foldl (\<lambda>a c. 10 * a + (of_char c - 48)) 0 s"

text \<open>\<^verbatim>\<open>os.getenv(key, default)\<close> on the environment of the process.\<close>

definition getenv :: "(string \<Rightarrow> string option) \<Rightarrow> string \<Rightarrow> string \<Rightarrow> string" where
  "getenv environ key dflt = (case environ key of None \<Rightarrow> dflt | Some v \<Rightarrow> v)"

definition resolve_nthreads :: "(string \<Rightarrow> string option) \<Rightarrow> int option \<Rightarrow> error + int" where
  "resolve_nthreads environ nt =
     (case nt of
        Some n \<Rightarrow> Inr n
      | None \<Rightarrow> py_int (getenv environ ''OMP_NUM_THREADS'' ''1''))"

subsection \<open>Construction\<close>

text \<open>
  What the constructor takes from outside the file: the two conversions of \<^verbatim>\<open>utils\<close>, the
  environment of the process, and \<^verbatim>\<open>run\<close>, which the base class leaves to the engine. An
  engine reads the configured object and stores the counts and the separations. The
  keyword arguments of an engine, kept in \<^verbatim>\<open>attrs\<close> and read by no method of the file, are
  left out.
\<close>

record externals =
  cartesian_to_sky :: conversion
  sky_to_cartesian :: conversion
  environ :: "string \<Rightarrow> string option"
  engine_run :: "counter \<Rightarrow> error + f8 nd \<times> f8 nd"

record arguments =
  arg_mode :: string
  arg_edges :: edges_arg
  arg_positions1 :: "ndarray list"
  arg_positions2 :: "ndarray list option"
  arg_weights1 :: "real list option"
  arg_weights2 :: "real list option"
  arg_bin_type :: string
  arg_position_type :: string
  arg_weight_type :: "string option"
  arg_los :: string
  arg_boxsize :: "boxvalue option"
  arg_output_sepavg :: bool
  arg_nthreads :: "int option"

text \<open>\<^verbatim>\<open>BaseTwoPointCounterEngine.__init__\<close>, statement by statement.\<close>

definition init :: "externals \<Rightarrow> arguments \<Rightarrow> error + counter" where
  "init ext a =
     ebind (resolve_nthreads (environ ext) (arg_nthreads a)) (\<lambda>nt.
     ebind (set_positions (cartesian_to_sky ext) (sky_to_cartesian ext)
              (arg_positions1 a) (arg_positions2 a) (arg_position_type a)
              (blank\<lparr>mode := arg_mode a, nthreads := nt\<rparr>)) (\<lambda>self1.
     ebind (set_weights (arg_weights1 a) (arg_weights2 a) (arg_weight_type a) self1) (\<lambda>self2.
     ebind (set_edges (arg_edges a) (arg_bin_type a) self2) (\<lambda>self3.
     ebind (set_los (arg_los a) self3) (\<lambda>self4.
     ebind (set_boxsize (arg_boxsize a) self4) (\<lambda>self5.
     ebind (engine_run ext (self5\<lparr>output_sepavg := arg_output_sepavg a\<rparr>)) (\<lambda>ws.
       let self6 = self5\<lparr>output_sepavg := arg_output_sepavg a, wcounts := fst ws, sep := snd ws\<rparr>
       in
     ebind (if \<not> output_sepavg self6 then set_default_sep self6 else Inr self6) (\<lambda>self7.
     ebind (normalization self7) (\<lambda>n. Inr (self7\<lparr>norm_attr := n\<rparr>))))))))))"

subsection \<open>Rebinning\<close>

fun sequence :: "(error + 'a) list \<Rightarrow> error + 'a list" where
  "sequence [] = Inr []"
| "sequence (m # ms) = ebind m (\<lambda>x. ebind (sequence ms) (\<lambda>xs. Inr (x # xs)))"

text \<open>
  An operation between two arrays, entry by entry, with numpy's broadcasting: along
  each axis the lengths agree or one of them is one; a vector against a matrix is a single
  row. (A matrix without rows has lost its number of columns.)
\<close>

definition broadcast1 :: "('a \<Rightarrow> 'a \<Rightarrow> 'a) \<Rightarrow> 'a list \<Rightarrow> 'a list \<Rightarrow> error + 'a list" where
  "broadcast1 f xs ys =
     (if length xs = length ys then Inr (map2 f xs ys)
      else if length xs = 1 then Inr (map (f (hd xs)) ys)
      else if length ys = 1 then Inr (map (\<lambda>x. f x (hd ys)) xs)
      else Inl ValueError)"

fun nd_binop :: "('a \<Rightarrow> 'a \<Rightarrow> 'a) \<Rightarrow> 'a nd \<Rightarrow> 'a nd \<Rightarrow> error + 'a nd" where
  "nd_binop f (A1 xs) (A1 ys) = ebind (broadcast1 f xs ys) (\<lambda>r. Inr (A1 r))"
| "nd_binop f (A1 xs) (A2 yr) =
     ebind (sequence (map (broadcast1 f xs) yr)) (\<lambda>r. Inr (A2 r))"
| "nd_binop f (A2 xr) (A1 ys) =
     ebind (sequence (map (\<lambda>x. broadcast1 f x ys) xr)) (\<lambda>r. Inr (A2 r))"
| "nd_binop f (A2 xr) (A2 yr) =
     (if length xr = length yr then
        ebind (sequence (map2 (broadcast1 f) xr yr)) (\<lambda>r. Inr (A2 r))
      else if length xr = 1 then
        ebind (sequence (map (broadcast1 f (hd xr)) yr)) (\<lambda>r. Inr (A2 r))
      else if length yr = 1 then
        ebind (sequence (map (\<lambda>x. broadcast1 f x (hd yr)) xr)) (\<lambda>r. Inr (A2 r))
      else Inl ValueError)"

text \<open>\<^verbatim>\<open>tuple(s//f for s,f in zip(self.shape, factor))\<close>.\<close>

definition new_shape :: "int list \<Rightarrow> int list \<Rightarrow> error + int list" where
  "new_shape shp factor =
     sequence (map (\<lambda>(s, f). if f = 0 then Inl ZeroDivisionError else Inr (s div f))
       (zip shp factor))"

datatype factor_arg = FactorInt int | FactorTuple "int list"

text \<open>
  The method calls \<^verbatim>\<open>utils.rebin(array, statistic=np.sum)\<close>, of a module that is not part
  of the sources, with the array and the statistic only; \<open>utils_rebin_sum\<close> stands for that
  call. The target shape is computed and passed to nothing. The second call multiplies the
  separations by the counts that the first call has already replaced.
\<close>

definition rebin ::
  "(f8 nd \<Rightarrow> error + f8 nd) \<Rightarrow> factor_arg \<Rightarrow> 'a counter_scheme \<Rightarrow>
     error + 'a counter_scheme" where
  "rebin utils_rebin_sum factor0 self =
     (let factor = (case factor0 of FactorInt f \<Rightarrow> [f] | FactorTuple fs \<Rightarrow> fs) in
      if length factor \<noteq> ndim self then
        Inl (PairCounterError ''Provide a rebinning factor for each dimension'')
      else
        ebind (new_shape (shape self) factor) (\<lambda>_.
        ebind (utils_rebin_sum (wcounts self)) (\<lambda>w.
          let self1 = self\<lparr>wcounts := w\<rparr> in
        ebind (nd_binop fmul (sep self1) (wcounts self1)) (\<lambda>sw.
        ebind (utils_rebin_sum sw) (\<lambda>rs.
        ebind (nd_binop fdiv rs (wcounts self1)) (\<lambda>s. Inr (self1\<lparr>sep := s\<rparr>)))))))"

text \<open>
  Modelled from the spec: \<^verbatim>\<open>utils.rebin\<close> with the sum as statistic, of the module
  \<^verbatim>\<open>utils\<close> that is missing from the sources. The spec: it "merges adjacent bins along
  each dimension by the given integer factor per dimension (must evenly divide the
  existing bin count per dimension or fail), summing wcounts"; the failure is its
  \<^verbatim>\<open>ShapeMismatchError\<close>.
\<close>

definition merge_bins :: "nat \<Rightarrow> f8 list \<Rightarrow> f8 list" where
  "merge_bins f xs = map (\<lambda>k. fsum (take f (drop (k * f) xs))) [0..<length xs div f]"

definition add_rows :: "f8 list list \<Rightarrow> f8 list" where
  "add_rows rows = (case rows of [] \<Rightarrow> [] | r # rs \<Rightarrow> foldl (map2 fadd) r rs)"

definition merge_rows :: "nat \<Rightarrow> f8 list list \<Rightarrow> f8 list list" where
  "merge_rows f rows =
     map (\<lambda>k. add_rows (take f (drop (k * f) rows))) [0..<length rows div f]"

definition utils_rebin :: "int list \<Rightarrow> f8 nd \<Rightarrow> error + f8 nd" where
  "utils_rebin factor a =
     (case (a, factor) of
        (A1 xs, [f]) \<Rightarrow>
          if f \<le> 0 then Inl ShapeMismatchError
          else if int (length xs) mod f \<noteq> 0 then Inl ShapeMismatchError
          else Inr (A1 (merge_bins (nat f) xs))
      | (A2 rows, [f, g]) \<Rightarrow>
          if f \<le> 0 \<or> g \<le> 0 then Inl ShapeMismatchError
          else if int (length rows) mod f \<noteq> 0 then Inl ShapeMismatchError
          else if list_ex (\<lambda>r. int (length r) mod g \<noteq> 0) rows then Inl ShapeMismatchError
          else Inr (A2 (merge_rows (nat f) (map (merge_bins (nat g)) rows)))
      | _ \<Rightarrow> Inl ShapeMismatchError)"

text \<open>\<^verbatim>\<open>np.sum(a)\<close>: the sum of all the entries of an array.\<close>

definition nd_sum :: "f8 nd \<Rightarrow> f8" where
  "nd_sum a = (case a of A1 xs \<Rightarrow> fsum xs | A2 rows \<Rightarrow> fsum (concat rows))"

text \<open>An array of two dimensions has rows of one length.\<close>

definition rectangular :: "'a nd \<Rightarrow> bool" where
  "rectangular a =
     (case a of A1 xs \<Rightarrow> True | A2 rows \<Rightarrow> list_all (\<lambda>r. length r = length (hd rows)) rows)"

section \<open>The analytic counter\<close>

record analytic = counter +
  n1 :: int
  n2 :: "int option"

definition blank_analytic :: analytic where
  "blank_analytic = \<lparr>mode = [], nthreads = 0, positions1 = [], positions2 = [],
     autocorr = False, weight_type = None, weights1 = None, weights2 = None, edges = [],
     bin_type = [], los = [], boxsize = None, output_sepavg = False, wcounts = A1 [],
     sep = A1 [], norm_attr = PyInt 0, n1 = 0, n2 = None\<rparr>"

definition analytic_normalization :: "'a analytic_scheme \<Rightarrow> error + int" where
  "analytic_normalization self =
     (if autocorr self then Inr (n1 self * (n1 self - 1))
      else (case n2 self of None \<Rightarrow> Inl TypeError | Some m \<Rightarrow> Inr (n1 self * m)))"

text \<open>\<^verbatim>\<open>self.edges[i]\<close>, \<^verbatim>\<open>self.boxsize[k]\<close> and \<^verbatim>\<open>self.boxsize.prod()\<close>.\<close>

definition edge :: "nat \<Rightarrow> 'a counter_scheme \<Rightarrow> error + real list" where
  "edge i self = (if i < length (edges self) then Inr (edges self ! i) else Inl IndexError)"

definition box_item :: "boxvalue option \<Rightarrow> nat \<Rightarrow> error + f8" where
  "box_item b k =
     (case b of
        None \<Rightarrow> Inl TypeError
      | Some (Number _) \<Rightarrow> Inl TypeError
      | Some (Sequence xs) \<Rightarrow> if k < length xs then Inr (Fin (xs ! k)) else Inl IndexError
      | Some (NdVector xs) \<Rightarrow> if k < length xs then Inr (xs ! k) else Inl IndexError)"

definition box_prod :: "boxvalue option \<Rightarrow> error + f8" where
  "box_prod b =
     (case b of
        None \<Rightarrow> Inl AttributeError
      | Some (Number _) \<Rightarrow> Inl AttributeError
      | Some (Sequence _) \<Rightarrow> Inl AttributeError
      | Some (NdVector xs) \<Rightarrow> Inr (fprod xs))"

text \<open>
  \<^verbatim>\<open>run\<close>, first half: the volume \<^verbatim>\<open>v\<close> enclosed by each edge and its differences
  \<^verbatim>\<open>dv\<close> between consecutive edges, by mode; in mode \<^verbatim>\<open>rp\<close> the result has one column.
\<close>

definition analytic_volumes :: "'a analytic_scheme \<Rightarrow> error + f8 nd" where
  "analytic_volumes self =
     (if mode self = ''s'' then
        ebind (edge 0 self) (\<lambda>e0.
          let v = map (\<lambda>a. Fin (4 / 3 * pi * a ^ 3)) e0 in Inr (A1 (fdiff v)))
      else if mode self = ''smu'' then
        ebind (edge 0 self) (\<lambda>e0. ebind (edge 1 self) (\<lambda>e1.
          let v = map (\<lambda>a. map (\<lambda>b. Fin (4 / 3 * pi * a ^ 3 * b)) e1) e0
          in Inr (A2 (map fdiff (fdiff_rows v)))))
      else if mode self = ''rppi'' then
        ebind (edge 0 self) (\<lambda>e0. ebind (edge 1 self) (\<lambda>e1.
          let v = map (\<lambda>a. map (\<lambda>b. Fin (2 * pi * a ^ 2 * b)) e1) e0
          in Inr (A2 (map fdiff (fdiff_rows v)))))
      else if mode self = ''rp'' then
        ebind (edge 0 self) (\<lambda>e0.
        ebind (str_index ''xyz'' (los self)) (\<lambda>k.
        ebind (box_item (boxsize self) k) (\<lambda>side.
          let v = map (\<lambda>a. [fmul (Fin (pi * a ^ 2)) side]) e0
          in Inr (A2 (fdiff_rows v)))))
      else
        Inl (PairCounterError (''No analytic randoms provided for mode '' @ mode self)))"

text \<open>
  \<^verbatim>\<open>run\<close>, last line: \<^verbatim>\<open>self.wcounts = self.normalization()*dv/self.boxsize.prod()\<close>.
\<close>

definition analytic_run :: "'a analytic_scheme \<Rightarrow> error + 'a analytic_scheme" where
  "analytic_run self =
     ebind (analytic_volumes self) (\<lambda>dv.
     ebind (analytic_normalization self) (\<lambda>nrm.
     ebind (box_prod (boxsize self)) (\<lambda>vol.
       Inr (self\<lparr>wcounts := nd_map (\<lambda>d. fdiv (fmul (Fin (of_int nrm)) d) vol) dv\<rparr>))))"

text \<open>The constructor; \<^verbatim>\<open>n1\<close> defaults to 10, \<^verbatim>\<open>n2\<close> to \<^verbatim>\<open>None\<close> and \<^verbatim>\<open>los\<close> to \<^verbatim>\<open>z\<close>.\<close>

definition AnalyticTwoPointCounter ::
  "string \<Rightarrow> edges_arg \<Rightarrow> boxvalue option \<Rightarrow> int \<Rightarrow> int option \<Rightarrow> string \<Rightarrow> error + analytic"
  where
  "AnalyticTwoPointCounter md e b m1 m2 l =
     ebind (set_edges e ''auto'' (blank_analytic\<lparr>mode := md\<rparr>)) (\<lambda>self1.
     ebind (set_boxsize b self1) (\<lambda>self2.
     ebind (set_los l self2) (\<lambda>self3.
     ebind (analytic_run (self3\<lparr>n1 := m1, n2 := m2, autocorr := (m2 = None)\<rparr>)) (\<lambda>self4.
       set_default_sep self4))))"

section \<open>Values for the examples\<close>

text \<open>
  \<^verbatim>\<open>np.logspace(start, stop, num)\<close>: the powers of ten of the evenly spaced exponents.
\<close>

definition logspace :: "real \<Rightarrow> real \<Rightarrow> nat \<Rightarrow> real list" where
  "logspace start stop num = map (\<lambda>x. 10 powr x) (linspace start stop num)"

text \<open>
  An engine that finds no pair: every count is zero and every average separation is
  undefined. The examples use no conversion of positions.
\<close>

definition example_engine :: "counter \<Rightarrow> error + f8 nd \<times> f8 nd" where
  "example_engine self =
     (case shape self of
        [r] \<Rightarrow> Inr (A1 (replicate (nat r) (Fin 0)), A1 (replicate (nat r) NaN))
      | [r, c] \<Rightarrow>
          Inr (A2 (replicate (nat r) (replicate (nat c) (Fin 0))),
               A2 (replicate (nat r) (replicate (nat c) NaN)))
      | _ \<Rightarrow> Inl ValueError)"

definition example_externals :: externals where
  "example_externals =
     \<lparr>cartesian_to_sky = (\<lambda>p. Inr p), sky_to_cartesian = (\<lambda>p. Inr p),
      environ = (\<lambda>k. None), engine_run = example_engine\<rparr>"

text \<open>
  Three objects at the corners of a triangle, the edges \<^verbatim>\<open>[0, 1, 2, 3, 4]\<close>, and the
  defaults of the constructor for everything else.
\<close>

definition example_arguments :: arguments where
  "example_arguments =
     \<lparr>arg_mode = ''s'', arg_edges = EdgeArray [0, 1, 2, 3, 4],
      arg_positions1 = [NdArray ''f8'' [0, 1, 0], NdArray ''f8'' [0, 0, 1], NdArray ''f8'' [0, 0, 0]],
      arg_positions2 = None, arg_weights1 = None, arg_weights2 = None,
      arg_bin_type = ''auto'', arg_position_type = ''auto'', arg_weight_type = Some ''auto'',
      arg_los = ''midpoint'', arg_boxsize = None, arg_output_sepavg = True,
      arg_nthreads = None\<rparr>"

section \<open>Helper facts\<close>

lemmas eval_defs =
  ebind_def set_edges_def promote_edges_def ndim_def shape_def set_bin_type_def lower_def
  lower_char_def allclose_def linspace_def isclose_def set_boxsize_def periodic_def fill3_def
  set_los_def blank_def Let_def set_positions_def check_positions_def set_weights_def
  set_weight_type_def weights_presence_def size1_def size2_def check_weights_def
  resolve_nthreads_def getenv_def py_int_def strip_def is_space_def parse_decimal_def
  digit_of_def init_def example_engine_def example_externals_def example_arguments_def
  normalization_def set_default_sep_def midpoints_def empty2_def assign_all_def

lemma init_steps:
  assumes "init ext a = Inr c"
  obtains nt s1 s2 s3 s4 s5 ws s7 n where
    "resolve_nthreads (environ ext) (arg_nthreads a) = Inr nt"
    "set_positions (cartesian_to_sky ext) (sky_to_cartesian ext)
       (arg_positions1 a) (arg_positions2 a) (arg_position_type a)
       (blank\<lparr>mode := arg_mode a, nthreads := nt\<rparr>) = Inr s1"
    "set_weights (arg_weights1 a) (arg_weights2 a) (arg_weight_type a) s1 = Inr s2"
    "set_edges (arg_edges a) (arg_bin_type a) s2 = Inr s3"
    "set_los (arg_los a) s3 = Inr s4"
    "set_boxsize (arg_boxsize a) s4 = Inr s5"
    "engine_run ext (s5\<lparr>output_sepavg := arg_output_sepavg a\<rparr>) = Inr ws"
    "(if \<not> arg_output_sepavg a
      then set_default_sep
             (s5\<lparr>output_sepavg := arg_output_sepavg a, wcounts := fst ws, sep := snd ws\<rparr>)
      else Inr (s5\<lparr>output_sepavg := arg_output_sepavg a, wcounts := fst ws, sep := snd ws\<rparr>))
     = Inr s7"
    "normalization s7 = Inr n"
    "c = s7\<lparr>norm_attr := n\<rparr>"
  using assms unfolding init_def ebind_def Let_def
  by (auto split: sum.splits)

lemma set_bin_type_mode: "set_bin_type bt self = Inr self' \<Longrightarrow> mode self' = mode self"
  by (auto simp: set_bin_type_def Let_def split: if_splits list.splits)

lemma set_edges_mode: "set_edges e bt self = Inr self' \<Longrightarrow> mode self' = mode self"
  by (auto simp: set_edges_def ebind_def Let_def dest!: set_bin_type_mode
      split: sum.splits if_splits)

lemma set_boxsize_mode: "set_boxsize b self = Inr self' \<Longrightarrow> mode self' = mode self"
  by (auto simp: set_boxsize_def ebind_def Let_def split: sum.splits if_splits)

lemma set_los_mode: "set_los l self = Inr self' \<Longrightarrow> mode self' = mode self"
  by (auto simp: set_los_def split: if_splits)

lemma set_positions_mode:
  "set_positions c2s s2c p1 p2 pt self = Inr self' \<Longrightarrow> mode self' = mode self"
  by (auto simp: set_positions_def ebind_def Let_def split: sum.splits option.splits)

lemma set_weights_mode: "set_weights w1 w2 wt self = Inr self' \<Longrightarrow> mode self' = mode self"
  by (auto simp: set_weights_def set_weight_type_def ebind_def Let_def
      split: sum.splits if_splits)

lemma set_bin_type_edges: "set_bin_type bt self = Inr self' \<Longrightarrow> edges self' = edges self"
  by (auto simp: set_bin_type_def Let_def split: if_splits list.splits)

lemma set_boxsize_result:
  "set_boxsize b self =
     (case b of None \<Rightarrow> Inr (self\<lparr>boxsize := Some (NdVector [NaN, NaN, NaN])\<rparr>)
              | Some v \<Rightarrow> Inr (self\<lparr>boxsize := Some v\<rparr>))"
  by (simp add: set_boxsize_def periodic_def fill3_def ebind_def Let_def numeral_3_eq_3
      split: option.splits)

lemma set_bin_type_auto:
  assumes "lower bt = ''auto''" "edges self = e # es" "e \<noteq> []"
  shows "set_bin_type bt self =
     Inr (self\<lparr>bin_type :=
       (if allclose e (linspace (hd e) (last e) (length e)) then ''lin'' else ''auto'')\<rparr>)"
  using assms by (simp add: set_bin_type_def Let_def)

lemma lower_auto: "lower ''auto'' = ''auto''"
  by (simp add: lower_def lower_char_def)

lemma set_default_sep_one_dimension:
  "edges self = [e] \<Longrightarrow> set_default_sep self = Inr (self\<lparr>sep := A1 (map Fin (midpoints e))\<rparr>)"
  by (simp add: set_default_sep_def ndim_def Let_def)

section \<open>Box geometry\<close>

lemma set_boxsize_never_periodic: "set_boxsize b self = Inr self' \<Longrightarrow> \<not> periodic self'"
  by (auto simp: set_boxsize_result periodic_def split: option.splits)

text \<open>
  C1 (the code departs from the claim). The claim: a given box is broadcast to a vector of
  three side lengths and the counter is periodic. The code, for the box \<^verbatim>\<open>1000\<close>: the
  number is stored as it is and \<^verbatim>\<open>periodic\<close> is false, in \<^verbatim>\<open>_set_boxsize\<close> and after the
  whole construction. The broadcast runs when no box is given: the three entries are then
  \<^verbatim>\<open>nan\<close>, and \<^verbatim>\<open>periodic\<close> is false as well.
\<close>

theorem boxsize_given_stays_scalar:
  "set_boxsize (Some (Number 1000)) blank = Inr (blank\<lparr>boxsize := Some (Number 1000)\<rparr>)
   \<and> \<not> periodic (blank\<lparr>boxsize := Some (Number 1000)\<rparr>)
   \<and> (case init example_externals (example_arguments\<lparr>arg_boxsize := Some (Number 1000)\<rparr>) of
        Inl err \<Rightarrow> None
      | Inr c \<Rightarrow> Some (boxsize c, periodic c)) = Some (Some (Number 1000), False)
   \<and> (case init example_externals (example_arguments\<lparr>arg_boxsize := None\<rparr>) of
        Inl err \<Rightarrow> None
      | Inr c \<Rightarrow> Some (boxsize c, periodic c)) = Some (Some (NdVector [NaN, NaN, NaN]), False)"
  by (simp add: eval_defs numeral_3_eq_3)

section \<open>Bin type\<close>

lemma isclose_refl: "isclose x x"
  by (simp add: isclose_def)

lemma allclose_refl: "allclose xs xs"
  by (induction xs) (simp_all add: allclose_def isclose_refl)

lemma allclose_nth:
  "allclose a b \<Longrightarrow> i < length a \<Longrightarrow> i < length b \<Longrightarrow> isclose (a ! i) (b ! i)"
  by (simp add: allclose_def list_all_length)

lemma length_linspace [simp]: "length (linspace a b n) = n"
  by (simp add: linspace_def)

lemma hd_linspace: "0 < n \<Longrightarrow> hd (linspace a b n) = a"
proof -
  assume "0 < n"
  show ?thesis
  proof (cases "n = 1")
    case True
    then show ?thesis by (simp add: linspace_def)
  next
    case False
    with \<open>0 < n\<close> have "[0..<n - 1] = 0 # [1..<n - 1]"
      by (simp add: upt_conv_Cons)
    with False \<open>0 < n\<close> show ?thesis by (simp add: linspace_def)
  qed
qed

lemma last_linspace: "1 < n \<Longrightarrow> last (linspace a b n) = b"
  by (simp add: linspace_def)

lemma linspace_nth:
  "i < n - 1 \<Longrightarrow> linspace a b n ! i = real i * ((b - a) / real (n - 1)) + a"
  by (auto simp: linspace_def nth_append)

lemma linspace_again:
  assumes "0 < n"
  shows "linspace (hd (linspace a b n)) (last (linspace a b n)) (length (linspace a b n)) =
    linspace a b n"
proof (cases "n = 1")
  case True
  then show ?thesis by (simp add: linspace_def)
next
  case False
  with assms have "1 < n" by simp
  then show ?thesis using hd_linspace[OF assms] last_linspace by simp
qed

lemma set_bin_type_linspace:
  assumes "0 < n"
  shows "set_bin_type ''auto'' (self\<lparr>edges := [linspace a b n]\<rparr>) =
    Inr (self\<lparr>edges := [linspace a b n], bin_type := ''lin''\<rparr>)"
proof -
  have ne: "linspace a b n \<noteq> []" using assms by (auto dest: arg_cong[where f = length])
  show ?thesis
    using set_bin_type_auto[OF lower_auto, of "self\<lparr>edges := [linspace a b n]\<rparr>"
        "linspace a b n" "[]", OF _ ne] linspace_again[OF assms, of a b] allclose_refl
    by simp
qed

lemma length_logspace [simp]: "length (logspace a b n) = n"
  by (simp add: logspace_def)

lemma logspace_not_close:
  "\<not> allclose (logspace (-4) 0 40)
       (linspace (hd (logspace (-4) 0 40)) (last (logspace (-4) 0 40))
          (length (logspace (-4) 0 40)))"
proof
  let ?L = "logspace (-4) 0 40"
  assume "allclose ?L (linspace (hd ?L) (last ?L) (length ?L))"
  then have c: "isclose (?L ! 1) (linspace (hd ?L) (last ?L) 40 ! 1)"
    using allclose_nth[of ?L "linspace (hd ?L) (last ?L) (length ?L)" 1] by simp
  have small: "(10::real) powr (- 4) = 1 / 10000"
    by (simp add: powr_minus_divide)
  have hd: "hd ?L = 1 / 10000"
    using hd_linspace[of 40 "-4" 0] small
    by (simp add: logspace_def hd_map[OF _] list.map_sel(1) linspace_def upt_conv_Cons)
  have last: "last ?L = 1"
    using last_linspace[of 40 "-4" 0]
    by (simp add: logspace_def last_map linspace_def)
  have l1: "?L ! 1 = 10 powr (- 152 / 39)"
    using linspace_nth[of 1 40 "-4" 0] by (simp add: logspace_def)
  have m1: "linspace (hd ?L) (last ?L) 40 ! 1 = (1 - 1 / 10000) / 39 + 1 / 10000"
    using linspace_nth[of 1 40 "1 / 10000" 1] by (simp add: hd last)
  have "(10::real) powr (- 152 / 39) < 10 powr (- 3)"
    by (rule powr_less_mono) simp_all
  also have "\<dots> = 1 / 1000" by (simp add: powr_minus_divide)
  finally have up: "(10::real) powr (- 152 / 39) < 1 / 1000" .
  have low: "0 < (10::real) powr (- 152 / 39)" by simp
  from c show False
    unfolding l1 m1 isclose_def using up low by (simp add: abs_if split: if_splits)
qed

lemma set_bin_type_logspace:
  "set_bin_type ''auto'' (self\<lparr>edges := [logspace (-4) 0 40]\<rparr>) =
    Inr (self\<lparr>edges := [logspace (-4) 0 40], bin_type := ''auto''\<rparr>)"
proof -
  have ne: "logspace (-4) 0 40 \<noteq> []" by (auto dest: arg_cong[where f = length])
  show ?thesis
    using set_bin_type_auto[OF lower_auto, of "self\<lparr>edges := [logspace (-4) 0 40]\<rparr>"
        "logspace (-4) 0 40" "[]", OF _ ne] logspace_not_close
    by simp
qed

text \<open>
  C2, as stated, fails: for the edges \<^verbatim>\<open>logspace(-4, 0, 40)\<close> the bin type \<^verbatim>\<open>auto\<close> is
  not resolved to \<^verbatim>\<open>custom\<close>; it stays \<^verbatim>\<open>auto\<close>.
\<close>

theorem bin_type_auto_stays_auto_counterexample:
  "set_bin_type ''auto'' (blank\<lparr>edges := [logspace (-4) 0 40]\<rparr>) =
     Inr (blank\<lparr>edges := [logspace (-4) 0 40], bin_type := ''auto''\<rparr>)
   \<and> set_bin_type ''auto'' (blank\<lparr>edges := [logspace (-4) 0 40]\<rparr>) \<noteq>
     Inr (blank\<lparr>edges := [logspace (-4) 0 40], bin_type := ''custom''\<rparr>)"
proof -
  have "bin_type (blank\<lparr>edges := [logspace (-4) 0 40], bin_type := ''auto''\<rparr>) \<noteq>
    bin_type (blank\<lparr>edges := [logspace (-4) 0 40], bin_type := ''custom''\<rparr>)"
    by simp
  then have "blank\<lparr>edges := [logspace (-4) 0 40], bin_type := ''auto''\<rparr> \<noteq>
    blank\<lparr>edges := [logspace (-4) 0 40], bin_type := ''custom''\<rparr>"
    by metis
  then show ?thesis by (simp add: set_bin_type_logspace)
qed

text \<open>
  C2, amended. With the bin type \<^verbatim>\<open>auto\<close> (in any case of letters), the stored bin type is
  \<^verbatim>\<open>lin\<close> if the first-dimension edges are within the relative tolerance \<open>1e-5\<close> and the
  absolute tolerance \<open>1e-8\<close> of the evenly spaced sequence from the first to the last edge
  with as many entries, and stays \<^verbatim>\<open>auto\<close> otherwise; the edges \<^verbatim>\<open>linspace(1, 100, 11)\<close>
  give \<^verbatim>\<open>lin\<close> and the edges \<^verbatim>\<open>logspace(-4, 0, 40)\<close> leave \<^verbatim>\<open>auto\<close>.
\<close>

theorem bin_type_auto_detection:
  fixes self :: "'a counter_scheme"
  shows "(lower bt = ''auto'' \<and> edges self = e # es \<and> e \<noteq> [] \<longrightarrow>
           set_bin_type bt self =
             Inr (self\<lparr>bin_type :=
               (if allclose e (linspace (hd e) (last e) (length e)) then ''lin''
                else ''auto'')\<rparr>))
   \<and> set_bin_type ''auto'' (self\<lparr>edges := [linspace 1 100 11]\<rparr>) =
       Inr (self\<lparr>edges := [linspace 1 100 11], bin_type := ''lin''\<rparr>)
   \<and> set_bin_type ''auto'' (self\<lparr>edges := [logspace (-4) 0 40]\<rparr>) =
       Inr (self\<lparr>edges := [logspace (-4) 0 40], bin_type := ''auto''\<rparr>)"
  using set_bin_type_auto[of bt self e es] set_bin_type_linspace[where n = 11 and a = 1 and b = 100 and self = self]
    set_bin_type_logspace[where self = self]
  by simp

theorem bin_type_auto_detection_witness:
  "set_bin_type ''AUTO'' (blank\<lparr>edges := [[1, 2, 3]]\<rparr>) =
     Inr (blank\<lparr>edges := [[1, 2, 3]], bin_type := ''lin''\<rparr>)
   \<and> set_bin_type ''auto'' (blank\<lparr>edges := [[1, 2, 4]]\<rparr>) =
     Inr (blank\<lparr>edges := [[1, 2, 4]], bin_type := ''auto''\<rparr>)"
proof -
  have up: "lower ''AUTO'' = ''auto''" by (simp add: lower_def lower_char_def)
  have a: "allclose [1, 2, 3] (linspace (hd [1, 2, 3]) (last [1, 2, 3]) (length [1, 2, 3 :: real]))"
    by (simp add: allclose_def linspace_def isclose_def)
  have b: "\<not> allclose [1, 2, 4] (linspace (hd [1, 2, 4]) (last [1, 2, 4]) (length [1, 2, 4 :: real]))"
    by (simp add: allclose_def linspace_def isclose_def)
  show ?thesis
    using bin_type_auto_detection[of "''AUTO''" "blank\<lparr>edges := [[1, 2, 3]]\<rparr>" "[1, 2, 3]" "[]",
        THEN conjunct1]
      bin_type_auto_detection[of "''auto''" "blank\<lparr>edges := [[1, 2, 4]]\<rparr>" "[1, 2, 4]" "[]",
        THEN conjunct1]
      up lower_auto a b
    by simp
qed

section \<open>Normalization\<close>

lemma normalization_norm_attr [simp]:
  "normalization (self\<lparr>norm_attr := n\<rparr>) = normalization self"
  by (simp add: normalization_def size1_def size2_def split: option.splits)

text \<open>
  C3. \<^verbatim>\<open>normalization()\<close> returns \<open>N * (N - 1)\<close> for an autocorrelation of \<open>N\<close> objects
  without weights, \<open>N1 * N2\<close> for a cross-correlation without weights, the square of the
  sum of the weights minus the sum of their squares for a weighted autocorrelation, and
  the product of the two sums of weights for a weighted cross-correlation; the
  constructor stores that value in \<^verbatim>\<open>norm\<close>.
\<close>

theorem normalization_formulas:
  fixes self :: "'a counter_scheme"
  shows "(weight_type self = None \<and> autocorr self \<and> positions1 self = p # ps \<longrightarrow>
            normalization self =
              Inr (PyInt (int (length (elems p)) * (int (length (elems p)) - 1))))
   \<and> (weight_type self = None \<and> \<not> autocorr self \<and> positions1 self = p # ps
        \<and> positions2 self = Some q # qs \<longrightarrow>
            normalization self = Inr (PyInt (int (length (elems p)) * int (length (elems q)))))
   \<and> (weight_type self \<noteq> None \<and> autocorr self \<and> weights1 self = Some w \<longrightarrow>
            normalization self = Inr (PyFloat ((sum_list w)\<^sup>2 - (\<Sum>x\<leftarrow>w. x\<^sup>2))))
   \<and> (weight_type self \<noteq> None \<and> \<not> autocorr self \<and> weights1 self = Some w
        \<and> weights2 self = Some v \<longrightarrow>
            normalization self = Inr (PyFloat (sum_list w * sum_list v)))
   \<and> (init ext a = Inr c \<longrightarrow> normalization c = Inr (norm_attr c))"
proof (intro conjI impI)
  assume "init ext a = Inr c"
  then obtain s7 n where "normalization s7 = Inr n" "c = s7\<lparr>norm_attr := n\<rparr>"
    by (rule init_steps)
  then show "normalization c = Inr (norm_attr c)" by simp
qed (auto simp: normalization_def size1_def size2_def ebind_def)

theorem normalization_formulas_witness:
  "normalization (blank\<lparr>autocorr := True, positions1 := [NdArray ''f8'' [0, 1, 0]]\<rparr>) =
     Inr (PyInt 6)
   \<and> normalization (blank\<lparr>positions1 := [NdArray ''f8'' [0, 1, 0]],
         positions2 := [Some (NdArray ''f8'' [0, 1])]\<rparr>) = Inr (PyInt 6)
   \<and> normalization (blank\<lparr>autocorr := True, weight_type := Some ''pair_product'',
         weights1 := Some [1, 2, 3]\<rparr>) = Inr (PyFloat 22)
   \<and> normalization (blank\<lparr>weight_type := Some ''pair_product'',
         weights1 := Some [1, 2], weights2 := Some [3, 4]\<rparr>) = Inr (PyFloat 21)
   \<and> (\<exists>c. init example_externals example_arguments = Inr c
          \<and> normalization c = Inr (norm_attr c) \<and> norm_attr c = PyInt 6)"
proof -
  note T = normalization_formulas
  have a: "normalization (blank\<lparr>autocorr := True, positions1 := [NdArray ''f8'' [0, 1, 0]]\<rparr>) =
     Inr (PyInt 6)"
    using T[of "blank\<lparr>autocorr := True, positions1 := [NdArray ''f8'' [0, 1, 0]]\<rparr>"
        "NdArray ''f8'' [0, 1, 0]" "[]"]
    by (simp add: blank_def)
  have b: "normalization (blank\<lparr>positions1 := [NdArray ''f8'' [0, 1, 0]],
         positions2 := [Some (NdArray ''f8'' [0, 1])]\<rparr>) = Inr (PyInt 6)"
    using T[of "blank\<lparr>positions1 := [NdArray ''f8'' [0, 1, 0]],
         positions2 := [Some (NdArray ''f8'' [0, 1])]\<rparr>"
        "NdArray ''f8'' [0, 1, 0]" "[]" "NdArray ''f8'' [0, 1]" "[]"]
    by (simp add: blank_def)
  have c: "normalization (blank\<lparr>autocorr := True, weight_type := Some ''pair_product'',
         weights1 := Some [1, 2, 3]\<rparr>) = Inr (PyFloat 22)"
    using T[of "blank\<lparr>autocorr := True, weight_type := Some ''pair_product'',
         weights1 := Some [1, 2, 3]\<rparr>" _ _ _ _ "[1, 2, 3]"]
    by (simp add: blank_def)
  have d: "normalization (blank\<lparr>weight_type := Some ''pair_product'',
         weights1 := Some [1, 2], weights2 := Some [3, 4]\<rparr>) = Inr (PyFloat 21)"
    using T[of "blank\<lparr>weight_type := Some ''pair_product'',
         weights1 := Some [1, 2], weights2 := Some [3, 4]\<rparr>" _ _ _ _ "[1, 2]" "[3, 4]"]
    by (simp add: blank_def)
  obtain c0 where c0: "init example_externals example_arguments = Inr c0" "norm_attr c0 = PyInt 6"
    by (simp add: eval_defs)
  have e: "normalization c0 = Inr (norm_attr c0)"
    using T[of blank _ _ _ _ _ _ example_externals example_arguments c0] c0 by simp
  from a b c d e c0 show ?thesis by blast
qed

section \<open>Rebinning\<close>

lemma fadd_assoc: "fadd (fadd a b) c = fadd a (fadd b c)"
  by (cases a; cases b; cases c) auto

lemma fadd_commute: "fadd a b = fadd b a"
  by (cases a; cases b) auto

lemma fadd_zero [simp]: "fadd (Fin 0) x = x" "fadd x (Fin 0) = x"
  by (cases x; simp)+

lemma foldl_fadd: "foldl fadd a xs = fadd a (fsum xs)"
proof (induction xs arbitrary: a)
  case Nil
  show ?case by (simp add: fsum_def)
next
  case (Cons x xs)
  have "foldl fadd a (x # xs) = fadd (fadd a x) (fsum xs)" using Cons[of "fadd a x"] by simp
  also have "\<dots> = fadd a (fadd x (fsum xs))" by (rule fadd_assoc)
  also have "fadd x (fsum xs) = fsum (x # xs)"
    using Cons[of "fadd (Fin 0) x"] by (simp add: fsum_def)
  finally show ?case .
qed

lemma fsum_Nil [simp]: "fsum [] = Fin 0"
  by (simp add: fsum_def)

lemma fsum_Cons [simp]: "fsum (x # xs) = fadd x (fsum xs)"
  using foldl_fadd[of "fadd (Fin 0) x" xs] by (simp add: fsum_def)

lemma fsum_append: "fsum (xs @ ys) = fadd (fsum xs) (fsum ys)"
  by (induction xs) (simp_all add: fadd_assoc)

lemma fsum_chunks:
  "length xs = m * f \<Longrightarrow>
   fsum (map (\<lambda>k. fsum (take f (drop (k * f) xs))) [0..<m]) = fsum xs"
proof (induction m arbitrary: xs)
  case 0
  then show ?case by simp
next
  case (Suc m)
  have len: "length (drop f xs) = m * f" using Suc.prems by simp
  have up: "[0..<Suc m] = 0 # map Suc [0..<m]"
    by (simp add: upt_conv_Cons map_Suc_upt del: upt_Suc)
  have "fsum (map (\<lambda>k. fsum (take f (drop (k * f) xs))) [0..<Suc m]) =
    fadd (fsum (take f xs))
      (fsum (map (\<lambda>k. fsum (take f (drop (k * f) (drop f xs)))) [0..<m]))"
    unfolding up by (simp add: o_def add.commute del: upt_Suc)
  also have "\<dots> = fadd (fsum (take f xs)) (fsum (drop f xs))"
    using Suc.IH[OF len] by simp
  also have "\<dots> = fsum xs"
    using fsum_append[of "take f xs" "drop f xs"] by simp
  finally show ?case .
qed

lemma fsum_merge_bins:
  assumes "0 < f" "length xs mod f = 0"
  shows "fsum (merge_bins f xs) = fsum xs"
proof -
  from assms have "length xs = (length xs div f) * f" by auto
  then show ?thesis unfolding merge_bins_def by (rule fsum_chunks)
qed

lemma utils_rebin_conserves_1d:
  assumes "utils_rebin factor (A1 xs) = Inr (A1 ys)"
  shows "fsum ys = fsum xs"
proof -
  from assms obtain f where f: "factor = [f]" "0 < f" "int (length xs) mod f = 0"
    and ys: "ys = merge_bins (nat f) xs"
    by (auto simp: utils_rebin_def split: list.splits if_splits)
  have "length xs mod nat f = 0"
    using f(2,3) by (metis nat_int nat_mod_distrib of_nat_0_le_iff nat_0 less_imp_le)
  with f(2) show ?thesis unfolding ys by (intro fsum_merge_bins) simp_all
qed

lemma fsum_concat: "fsum (concat rows) = fsum (map fsum rows)"
  by (induction rows) (simp_all add: fsum_append)

lemma fsum_map2_fadd:
  "length r = length s \<Longrightarrow> fsum (map2 fadd r s) = fadd (fsum r) (fsum s)"
proof (induction r s rule: list_induct2)
  case Nil
  show ?case by simp
next
  case (Cons x xs y ys)
  have "fadd (fadd x y) (fadd (fsum xs) (fsum ys)) = fadd (fadd x (fsum xs)) (fadd y (fsum ys))"
    by (metis fadd_assoc fadd_commute)
  with Cons show ?case by simp
qed

lemma fsum_foldl_rows:
  "\<forall>s \<in> set rs. length s = length r \<Longrightarrow>
   fsum (foldl (map2 fadd) r rs) = fadd (fsum r) (fsum (map fsum rs))"
proof (induction rs arbitrary: r)
  case Nil
  show ?case by simp
next
  case (Cons s rs)
  have len: "length (map2 fadd r s) = length r" using Cons.prems by simp
  have "fsum (foldl (map2 fadd) (map2 fadd r s) rs) =
      fadd (fsum (map2 fadd r s)) (fsum (map fsum rs))"
    using Cons.prems len by (intro Cons.IH) simp
  also have "fsum (map2 fadd r s) = fadd (fsum r) (fsum s)"
    using Cons.prems by (intro fsum_map2_fadd) simp
  finally show ?case by (simp add: fadd_assoc)
qed

lemma fsum_add_rows:
  "\<forall>s \<in> set rows. length s = n \<Longrightarrow> fsum (add_rows rows) = fsum (map fsum rows)"
  by (cases rows) (simp_all add: add_rows_def fsum_foldl_rows)

lemma fsum_merge_rows:
  assumes "0 < f" "length rows mod f = 0" "\<forall>s \<in> set rows. length s = n"
  shows "fsum (map fsum (merge_rows f rows)) = fsum (map fsum rows)"
proof -
  have chunk: "fsum (add_rows (take f (drop (k * f) rows))) =
      fsum (take f (drop (k * f) (map fsum rows)))" for k
  proof -
    have "\<forall>s \<in> set (take f (drop (k * f) rows)). length s = n"
      using assms(3) by (meson in_set_dropD in_set_takeD)
    then have "fsum (add_rows (take f (drop (k * f) rows))) =
        fsum (map fsum (take f (drop (k * f) rows)))"
      by (rule fsum_add_rows)
    then show ?thesis by (simp add: take_map drop_map)
  qed
  from assms have "length (map fsum rows) = (length rows div f) * f" by auto
  from fsum_chunks[OF this] show ?thesis
    by (simp add: merge_rows_def o_def chunk)
qed

lemma length_merge_bins [simp]: "length (merge_bins f xs) = length xs div f"
  by (simp add: merge_bins_def)

text \<open>
  The merge of adjacent bins that the specification describes conserves the sum of the
  entries, in one and in two dimensions.
\<close>

lemma utils_rebin_conserves:
  assumes "utils_rebin factor a = Inr b" "rectangular a"
  shows "nd_sum b = nd_sum a"
proof (cases a)
  case (A1 xs)
  with assms(1) obtain ys where "b = A1 ys"
    by (auto simp: utils_rebin_def split: list.splits if_splits)
  with assms(1) A1 utils_rebin_conserves_1d[of factor xs ys] show ?thesis
    by (simp add: nd_sum_def)
next
  case (A2 rows)
  with assms(1) obtain f g where fg: "factor = [f, g]" "0 < f" "0 < g"
      "int (length rows) mod f = 0" "\<forall>r \<in> set rows. int (length r) mod g = 0"
    and b: "b = A2 (merge_rows (nat f) (map (merge_bins (nat g)) rows))"
    by (auto simp: utils_rebin_def list_ex_iff split: list.splits if_splits)
  have modf: "length rows mod nat f = 0"
    using fg(2,4) by (metis nat_int nat_mod_distrib of_nat_0_le_iff nat_0 less_imp_le)
  have modg: "length r mod nat g = 0" if "r \<in> set rows" for r
    using fg(3,5) that by (metis nat_int nat_mod_distrib of_nat_0_le_iff nat_0 less_imp_le)
  have rect: "\<forall>r \<in> set rows. length r = length (hd rows)"
    using assms(2) A2 by (simp add: rectangular_def list_all_iff)
  have cols: "map fsum (map (merge_bins (nat g)) rows) = map fsum rows"
    using modg fg(3) by (simp add: fsum_merge_bins)
  have "nd_sum b = fsum (map fsum (merge_rows (nat f) (map (merge_bins (nat g)) rows)))"
    unfolding b by (simp add: nd_sum_def fsum_concat)
  also have "\<dots> = fsum (map fsum (map (merge_bins (nat g)) rows))"
    using fg(2) modf rect
    by (intro fsum_merge_rows[where n = "length (hd rows) div nat g"]) simp_all
  also have "\<dots> = fsum (map fsum rows)" by (simp only: cols)
  also have "\<dots> = nd_sum a" unfolding A2 by (simp add: nd_sum_def fsum_concat)
  finally show ?thesis .
qed

lemma rebin_changed_length_raises:
  assumes "sep self = A1 s" "h (wcounts self) = Inr (A1 w)"
    and "length w \<noteq> length s" "length w \<noteq> 1" "length s \<noteq> 1"
  shows "\<exists>err. rebin h f self = Inl err"
  using assms
  by (auto simp: rebin_def ebind_def broadcast1_def Let_def split: sum.splits)

lemma rebin_helper_raises:
  assumes "h (wcounts self) = Inl err"
  shows "\<exists>err'. rebin h f self = Inl err'"
  using assms by (auto simp: rebin_def ebind_def Let_def split: sum.splits)

text \<open>
  C4 (the code departs from the claim). The claim: after \<^verbatim>\<open>rebin(factor)\<close>, with a factor
  that divides the number of bins, the counts sum to what they summed to before. The code,
  for four bins and the factor 2, and for two by four bins and the factors \<^verbatim>\<open>(2, 2)\<close>,
  with the merge of the specification in the place of \<^verbatim>\<open>utils.rebin\<close>: the counts are
  merged, then the separations of the old bins are multiplied by the counts of the new
  bins, which numpy cannot broadcast, and \<^verbatim>\<open>rebin\<close> raises \<^verbatim>\<open>ValueError\<close> in place of
  returning the rebinned counter.
\<close>

theorem rebin_by_two_raises:
  "utils_rebin [2] (A1 [Fin 1, Fin 2, Fin 3, Fin 4]) = Inr (A1 [Fin 3, Fin 7])
   \<and> rebin (utils_rebin [2]) (FactorInt 2)
       (blank\<lparr>edges := [[0, 1, 2, 3, 4]], wcounts := A1 [Fin 1, Fin 2, Fin 3, Fin 4],
          sep := A1 [Fin (1 / 2), Fin (3 / 2), Fin (5 / 2), Fin (7 / 2)]\<rparr>) = Inl ValueError
   \<and> utils_rebin [2, 2] (A2 [[Fin 1, Fin 2, Fin 3, Fin 4], [Fin 5, Fin 6, Fin 7, Fin 8]]) =
       Inr (A2 [[Fin 14, Fin 22]])
   \<and> rebin (utils_rebin [2, 2]) (FactorTuple [2, 2])
       (blank\<lparr>mode := ''smu'', edges := [[0, 1, 2], [0, 1, 2, 3, 4]],
          wcounts := A2 [[Fin 1, Fin 2, Fin 3, Fin 4], [Fin 5, Fin 6, Fin 7, Fin 8]],
          sep := A2 [[Fin 1, Fin 1, Fin 1, Fin 1], [Fin 2, Fin 2, Fin 2, Fin 2]]\<rparr>) =
       Inl ValueError"
proof -
  have up: "[0..<2] = [0, 1]" by (simp add: upt_conv_Cons)
  have m: "utils_rebin [2] (A1 [Fin 1, Fin 2, Fin 3, Fin 4]) = Inr (A1 [Fin 3, Fin 7])"
    by (simp add: utils_rebin_def merge_bins_def up)
  have m2: "utils_rebin [2, 2] (A2 [[Fin 1, Fin 2, Fin 3, Fin 4], [Fin 5, Fin 6, Fin 7, Fin 8]]) =
       Inr (A2 [[Fin 14, Fin 22]])"
    by (simp add: utils_rebin_def merge_bins_def merge_rows_def add_rows_def up)
  have r: "rebin (utils_rebin [2]) (FactorInt 2)
       (blank\<lparr>edges := [[0, 1, 2, 3, 4]], wcounts := A1 [Fin 1, Fin 2, Fin 3, Fin 4],
          sep := A1 [Fin (1 / 2), Fin (3 / 2), Fin (5 / 2), Fin (7 / 2)]\<rparr>) = Inl ValueError"
    using m
    by (simp add: rebin_def ndim_def shape_def new_shape_def ebind_def broadcast1_def blank_def)
  have r2: "rebin (utils_rebin [2, 2]) (FactorTuple [2, 2])
       (blank\<lparr>mode := ''smu'', edges := [[0, 1, 2], [0, 1, 2, 3, 4]],
          wcounts := A2 [[Fin 1, Fin 2, Fin 3, Fin 4], [Fin 5, Fin 6, Fin 7, Fin 8]],
          sep := A2 [[Fin 1, Fin 1, Fin 1, Fin 1], [Fin 2, Fin 2, Fin 2, Fin 2]]\<rparr>) =
       Inl ValueError"
    using m2
    by (simp add: rebin_def ndim_def shape_def new_shape_def ebind_def broadcast1_def blank_def)
  from m r m2 r2 show ?thesis by (intro conjI)
qed

section \<open>Edges: one array or two\<close>

lemma set_edges_wrong_count:
  assumes "promote_edges e = Inr es"
    and "length es \<noteq> (if mode self \<in> set [''smu'', ''rppi''] then 2 else 1)"
  shows "set_edges e bt self =
     Inl (PairCounterError
       ((if mode self \<in> set [''smu'', ''rppi'']
         then ''A tuple of edges should be provided to pair counter in mode ''
         else ''Only one edge array should be provided to pair counter in mode '') @ mode self))"
  using assms by (auto simp: set_edges_def ebind_def ndim_def Let_def)

lemma set_edges_count:
  assumes "set_edges e bt self = Inr self'"
  shows "ndim self' = (if mode self \<in> set [''smu'', ''rppi''] then 2 else 1)"
proof -
  from assms obtain es where es: "promote_edges e = Inr es"
    by (auto simp: set_edges_def ebind_def split: sum.splits)
  with assms have *: "set_bin_type bt (self\<lparr>edges := es\<rparr>) = Inr self'"
    and len: "length es = (if mode self \<in> set [''smu'', ''rppi''] then 2 else 1)"
    by (auto simp: set_edges_def ebind_def ndim_def Let_def split: if_splits)
  from set_bin_type_edges[OF *] len show ?thesis by (simp add: ndim_def)
qed

lemma set_edges_accepts:
  assumes "promote_edges e = Inr es"
    and "length es = (if mode self \<in> set [''smu'', ''rppi''] then 2 else 1)"
    and "lower bt \<in> set [''lin'', ''custom'']"
  shows "set_edges e bt self = Inr (self\<lparr>edges := es, bin_type := lower bt\<rparr>)"
  using assms by (auto simp: set_edges_def ebind_def ndim_def set_bin_type_def Let_def)

lemma init_set_edges:
  assumes "init ext a = Inr c"
  shows "\<exists>(s2 :: counter) s3. mode s2 = arg_mode a \<and> set_edges (arg_edges a) (arg_bin_type a) s2 = Inr s3"
proof -
  from assms obtain nt s1 s2 s3 where
    1: "set_positions (cartesian_to_sky ext) (sky_to_cartesian ext)
            (arg_positions1 a) (arg_positions2 a) (arg_position_type a)
            (blank\<lparr>mode := arg_mode a, nthreads := nt\<rparr>) = Inr s1" and
    2: "set_weights (arg_weights1 a) (arg_weights2 a) (arg_weight_type a) s1 = Inr s2" and
    3: "set_edges (arg_edges a) (arg_bin_type a) s2 = Inr s3"
    unfolding init_def ebind_def by (auto split: sum.splits)
  have "mode s2 = arg_mode a"
    using set_positions_mode[OF 1] set_weights_mode[OF 2] by simp
  with 3 show ?thesis by blast
qed

lemma init_wrong_count:
  assumes "promote_edges (arg_edges a) = Inr es"
    and "length es \<noteq> (if arg_mode a \<in> set [''smu'', ''rppi''] then 2 else 1)"
    and "resolve_nthreads (environ ext) (arg_nthreads a) = Inr nt"
    and "set_positions (cartesian_to_sky ext) (sky_to_cartesian ext)
           (arg_positions1 a) (arg_positions2 a) (arg_position_type a)
           (blank\<lparr>mode := arg_mode a, nthreads := nt\<rparr>) = Inr s1"
    and "set_weights (arg_weights1 a) (arg_weights2 a) (arg_weight_type a) s1 = Inr s2"
  shows "init ext a =
     Inl (PairCounterError
       ((if arg_mode a \<in> set [''smu'', ''rppi'']
         then ''A tuple of edges should be provided to pair counter in mode ''
         else ''Only one edge array should be provided to pair counter in mode '')
        @ arg_mode a))"
proof -
  have m: "mode s2 = arg_mode a"
    using set_positions_mode[OF assms(4)] set_weights_mode[OF assms(5)] by simp
  have "set_edges (arg_edges a) (arg_bin_type a) s2 =
     Inl (PairCounterError
       ((if arg_mode a \<in> set [''smu'', ''rppi'']
         then ''A tuple of edges should be provided to pair counter in mode ''
         else ''Only one edge array should be provided to pair counter in mode '')
        @ arg_mode a))"
    using set_edges_wrong_count[of "arg_edges a" es s2 "arg_bin_type a"] assms(1,2) m by simp
  then show ?thesis
    unfolding init_def ebind_def using assms(3,4,5) by simp
qed

text \<open>
  C5, as stated, fails: a tuple of no edge array at all is another edge dimensionality,
  and for it \<^verbatim>\<open>edges[0]\<close> raises \<^verbatim>\<open>IndexError\<close>, in \<^verbatim>\<open>_set_edges\<close> and through both
  constructors, before any \<^verbatim>\<open>PairCounterError\<close> can be raised.
\<close>

theorem edges_empty_tuple_counterexample:
  "set_edges (EdgeTuple []) ''auto'' (blank\<lparr>mode := ''s''\<rparr>) = Inl IndexError
   \<and> AnalyticTwoPointCounter ''s'' (EdgeTuple []) (Some (NdVector [Fin 10, Fin 10, Fin 10]))
        10 None ''z'' = Inl IndexError
   \<and> init example_externals (example_arguments\<lparr>arg_edges := EdgeTuple []\<rparr>) = Inl IndexError
   \<and> set_edges (EdgeTuple []) ''auto'' (blank\<lparr>mode := ''smu''\<rparr>) = Inl IndexError"
  by (simp add: AnalyticTwoPointCounter_def eval_defs)

text \<open>
  C5, amended. Whenever a first edge array exists (the tuple of edge arrays is not empty,
  nor is a bare array of edges): a counter whose edges were accepted has two edge arrays
  when its mode is \<^verbatim>\<open>smu\<close> or \<^verbatim>\<open>rppi\<close> and one for every other mode; with any other number
  of arrays \<^verbatim>\<open>_set_edges\<close> raises the \<^verbatim>\<open>PairCounterError\<close> of that mode, the analytic
  constructor raises that error, and the base constructor never returns an object and
  raises that error as soon as the thread count, the positions and the weights have passed
  their own checks; with the right number and a bin type \<^verbatim>\<open>lin\<close> or \<^verbatim>\<open>custom\<close> the edges
  are stored as given.
\<close>

theorem edges_dimensionality:
  fixes self :: "'a counter_scheme"
  shows "(set_edges e bt self = Inr self' \<longrightarrow>
            ndim self' = (if mode self \<in> set [''smu'', ''rppi''] then 2 else 1))
   \<and> (promote_edges e = Inr es
        \<and> length es \<noteq> (if mode self \<in> set [''smu'', ''rppi''] then 2 else 1)
        \<longrightarrow> set_edges e bt self =
          Inl (PairCounterError
            ((if mode self \<in> set [''smu'', ''rppi'']
              then ''A tuple of edges should be provided to pair counter in mode ''
              else ''Only one edge array should be provided to pair counter in mode '')
             @ mode self)))
   \<and> (promote_edges e = Inr es
        \<and> length es = (if mode self \<in> set [''smu'', ''rppi''] then 2 else 1)
        \<and> lower bt \<in> set [''lin'', ''custom'']
        \<longrightarrow> set_edges e bt self = Inr (self\<lparr>edges := es, bin_type := lower bt\<rparr>))
   \<and> (promote_edges (arg_edges a) = Inr es
        \<and> length es \<noteq> (if arg_mode a \<in> set [''smu'', ''rppi''] then 2 else 1)
        \<longrightarrow> (\<exists>err. init ext a = Inl err)
          \<and> (\<forall>nt s1 s2.
                resolve_nthreads (environ ext) (arg_nthreads a) = Inr nt
                \<and> set_positions (cartesian_to_sky ext) (sky_to_cartesian ext)
                     (arg_positions1 a) (arg_positions2 a) (arg_position_type a)
                     (blank\<lparr>mode := arg_mode a, nthreads := nt\<rparr>) = Inr s1
                \<and> set_weights (arg_weights1 a) (arg_weights2 a) (arg_weight_type a) s1 = Inr s2
                \<longrightarrow> init ext a =
                  Inl (PairCounterError
                    ((if arg_mode a \<in> set [''smu'', ''rppi'']
                      then ''A tuple of edges should be provided to pair counter in mode ''
                      else ''Only one edge array should be provided to pair counter in mode '')
                     @ arg_mode a))))
   \<and> (promote_edges e = Inr es
        \<and> length es \<noteq> (if md \<in> set [''smu'', ''rppi''] then 2 else 1)
        \<longrightarrow> AnalyticTwoPointCounter md e b m1 m2 l =
          Inl (PairCounterError
            ((if md \<in> set [''smu'', ''rppi'']
              then ''A tuple of edges should be provided to pair counter in mode ''
              else ''Only one edge array should be provided to pair counter in mode '')
             @ md)))"
proof -
  have p1: "ndim self' = (if mode self \<in> set [''smu'', ''rppi''] then 2 else 1)"
    if "set_edges e bt self = Inr self'"
    using that by (rule set_edges_count)
  have p2: "set_edges e bt self =
          Inl (PairCounterError
            ((if mode self \<in> set [''smu'', ''rppi'']
              then ''A tuple of edges should be provided to pair counter in mode ''
              else ''Only one edge array should be provided to pair counter in mode '')
             @ mode self))"
    if "promote_edges e = Inr es
        \<and> length es \<noteq> (if mode self \<in> set [''smu'', ''rppi''] then 2 else 1)"
    using that set_edges_wrong_count by blast
  have p3: "set_edges e bt self = Inr (self\<lparr>edges := es, bin_type := lower bt\<rparr>)"
    if "promote_edges e = Inr es
        \<and> length es = (if mode self \<in> set [''smu'', ''rppi''] then 2 else 1)
        \<and> lower bt \<in> set [''lin'', ''custom'']"
    using that set_edges_accepts by blast
  have p4: "(\<exists>err. init ext a = Inl err)
          \<and> (\<forall>nt s1 s2.
                resolve_nthreads (environ ext) (arg_nthreads a) = Inr nt
                \<and> set_positions (cartesian_to_sky ext) (sky_to_cartesian ext)
                     (arg_positions1 a) (arg_positions2 a) (arg_position_type a)
                     (blank\<lparr>mode := arg_mode a, nthreads := nt\<rparr>) = Inr s1
                \<and> set_weights (arg_weights1 a) (arg_weights2 a) (arg_weight_type a) s1 = Inr s2
                \<longrightarrow> init ext a =
                  Inl (PairCounterError
                    ((if arg_mode a \<in> set [''smu'', ''rppi'']
                      then ''A tuple of edges should be provided to pair counter in mode ''
                      else ''Only one edge array should be provided to pair counter in mode '')
                     @ arg_mode a)))"
    if h: "promote_edges (arg_edges a) = Inr es
        \<and> length es \<noteq> (if arg_mode a \<in> set [''smu'', ''rppi''] then 2 else 1)"
  proof
    show "\<exists>err. init ext a = Inl err"
    proof (cases "init ext a")
      case (Inl err)
      then show ?thesis by blast
    next
      case (Inr c)
      from init_set_edges[OF this] obtain s2 :: counter and s3 where
        "mode s2 = arg_mode a" "set_edges (arg_edges a) (arg_bin_type a) s2 = Inr s3" by blast
      with h set_edges_wrong_count[of "arg_edges a" es s2 "arg_bin_type a"]
      show ?thesis by simp
    qed
  next
    from h have h1: "promote_edges (arg_edges a) = Inr es"
      and h2: "length es \<noteq> (if arg_mode a \<in> set [''smu'', ''rppi''] then 2 else 1)"
      by simp_all
    show "\<forall>nt s1 s2.
                resolve_nthreads (environ ext) (arg_nthreads a) = Inr nt
                \<and> set_positions (cartesian_to_sky ext) (sky_to_cartesian ext)
                     (arg_positions1 a) (arg_positions2 a) (arg_position_type a)
                     (blank\<lparr>mode := arg_mode a, nthreads := nt\<rparr>) = Inr s1
                \<and> set_weights (arg_weights1 a) (arg_weights2 a) (arg_weight_type a) s1 = Inr s2
                \<longrightarrow> init ext a =
                  Inl (PairCounterError
                    ((if arg_mode a \<in> set [''smu'', ''rppi'']
                      then ''A tuple of edges should be provided to pair counter in mode ''
                      else ''Only one edge array should be provided to pair counter in mode '')
                     @ arg_mode a))"
      using init_wrong_count[OF h1 h2] by blast
  qed
  have p5: "AnalyticTwoPointCounter md e b m1 m2 l =
          Inl (PairCounterError
            ((if md \<in> set [''smu'', ''rppi'']
              then ''A tuple of edges should be provided to pair counter in mode ''
              else ''Only one edge array should be provided to pair counter in mode '')
             @ md))"
    if h: "promote_edges e = Inr es
        \<and> length es \<noteq> (if md \<in> set [''smu'', ''rppi''] then 2 else 1)"
    using h set_edges_wrong_count[of e es "blank_analytic\<lparr>mode := md\<rparr>" "''auto''"]
    by (simp add: AnalyticTwoPointCounter_def ebind_def)
  show ?thesis
    apply (intro conjI)
        apply (rule impI, erule p1)
       apply (rule impI, erule p2)
      apply (rule impI, erule p3)
     apply (rule impI, erule p4)
    apply (rule impI, erule p5)
    done
qed

theorem edges_dimensionality_witness:
  "set_edges (EdgeTuple [[0, 1, 3], [0, 1, 2]]) ''custom'' (blank\<lparr>mode := ''smu''\<rparr>) =
     Inr (blank\<lparr>mode := ''smu'', edges := [[0, 1, 3], [0, 1, 2]], bin_type := ''custom''\<rparr>)
   \<and> ndim (blank\<lparr>mode := ''smu'', edges := [[0, 1, 3], [0, 1, 2]], bin_type := ''custom''\<rparr>) = 2
   \<and> set_edges (EdgeArray [0, 1, 3]) ''custom'' (blank\<lparr>mode := ''smu''\<rparr>) =
       Inl (PairCounterError
         ''A tuple of edges should be provided to pair counter in mode smu'')
   \<and> set_edges (EdgeTuple [[0, 1, 3], [0, 1, 2]]) ''custom'' (blank\<lparr>mode := ''s''\<rparr>) =
       Inl (PairCounterError
         ''Only one edge array should be provided to pair counter in mode s'')
   \<and> set_edges (EdgeTuple [[0, 1, 3], [0, 1, 2], [0, 1]]) ''custom'' (blank\<lparr>mode := ''rppi''\<rparr>) =
       Inl (PairCounterError
         ''A tuple of edges should be provided to pair counter in mode rppi'')
   \<and> init example_externals
         (example_arguments\<lparr>arg_edges := EdgeTuple [[0, 1, 3], [0, 1, 2]]\<rparr>) =
       Inl (PairCounterError
         ''Only one edge array should be provided to pair counter in mode s'')
   \<and> AnalyticTwoPointCounter ''rppi'' (EdgeArray [0, 1, 3]) None 10 None ''z'' =
       Inl (PairCounterError
         ''A tuple of edges should be provided to pair counter in mode rppi'')"
proof -
  let ?smu = "blank\<lparr>mode := ''smu''\<rparr>"
  let ?two = "EdgeTuple [[0, 1, 3], [0, 1, 2]]"
  let ?three = "EdgeTuple [[0, 1, 3], [0, 1, 2], [0, 1]]"
  let ?a = "example_arguments\<lparr>arg_edges := ?two\<rparr>"
  have p2: "promote_edges ?two = Inr [[0, 1, 3], [0, 1, 2]]"
    and p1: "promote_edges (EdgeArray [0, 1, 3]) = Inr [[0, 1, 3]]"
    and p3: "promote_edges ?three = Inr [[0, 1, 3], [0, 1, 2], [0, 1]]"
    by (simp_all add: promote_edges_def)
  have lw: "lower ''custom'' = ''custom''" by (simp add: lower_def lower_char_def)
  note T = edges_dimensionality
  have a: "set_edges ?two ''custom'' ?smu =
     Inr (blank\<lparr>mode := ''smu'', edges := [[0, 1, 3], [0, 1, 2]], bin_type := ''custom''\<rparr>)"
    using T[where e = ?two and bt = "''custom''" and self = ?smu
          and es = "[[0, 1, 3], [0, 1, 2]]", THEN conjunct2, THEN conjunct2, THEN conjunct1]
      p2 lw by simp
  have b: "ndim (blank\<lparr>mode := ''smu'', edges := [[0, 1, 3], [0, 1, 2]], bin_type := ''custom''\<rparr>) = 2"
    using T[where e = ?two and bt = "''custom''" and self = ?smu and self' =
        "blank\<lparr>mode := ''smu'', edges := [[0, 1, 3], [0, 1, 2]], bin_type := ''custom''\<rparr>",
        THEN conjunct1] a
    by simp
  have c: "set_edges (EdgeArray [0, 1, 3]) ''custom'' ?smu =
       Inl (PairCounterError
         ''A tuple of edges should be provided to pair counter in mode smu'')"
    using T[where e = "EdgeArray [0, 1, 3]" and bt = "''custom''" and self = ?smu
          and es = "[[0, 1, 3]]", THEN conjunct2, THEN conjunct1] p1 by simp
  have d: "set_edges ?two ''custom'' (blank\<lparr>mode := ''s''\<rparr>) =
       Inl (PairCounterError
         ''Only one edge array should be provided to pair counter in mode s'')"
    using T[where e = ?two and bt = "''custom''" and self = "blank\<lparr>mode := ''s''\<rparr>"
          and es = "[[0, 1, 3], [0, 1, 2]]", THEN conjunct2, THEN conjunct1] p2 by simp
  have d3: "set_edges ?three ''custom'' (blank\<lparr>mode := ''rppi''\<rparr>) =
       Inl (PairCounterError
         ''A tuple of edges should be provided to pair counter in mode rppi'')"
    using T[where e = ?three and bt = "''custom''" and self = "blank\<lparr>mode := ''rppi''\<rparr>"
          and es = "[[0, 1, 3], [0, 1, 2], [0, 1]]", THEN conjunct2, THEN conjunct1] p3
    by simp
  let ?s1 = "blank\<lparr>mode := ''s'', nthreads := 1,
      positions1 := arg_positions1 example_arguments, autocorr := True,
      positions2 := [None, None, None]\<rparr>"
  have r: "resolve_nthreads (environ example_externals) (arg_nthreads ?a) = Inr 1"
    by (simp add: eval_defs)
  have sp: "set_positions (cartesian_to_sky example_externals) (sky_to_cartesian example_externals)
      (arg_positions1 ?a) (arg_positions2 ?a) (arg_position_type ?a)
      (blank\<lparr>mode := arg_mode ?a, nthreads := 1\<rparr>) = Inr ?s1"
    by (simp add: eval_defs numeral_3_eq_3)
  have sw: "set_weights (arg_weights1 ?a) (arg_weights2 ?a) (arg_weight_type ?a) ?s1 =
      Inr (?s1\<lparr>weight_type := None, weights1 := None, weights2 := None\<rparr>)"
    by (simp add: eval_defs)
  have ma: "arg_mode ?a = ''s''" "arg_edges ?a = ?two" by (simp_all add: example_arguments_def)
  have e: "init example_externals ?a =
       Inl (PairCounterError
         ''Only one edge array should be provided to pair counter in mode s'')"
    using T[where a = ?a and ext = example_externals and es = "[[0, 1, 3], [0, 1, 2]]",
        THEN conjunct2, THEN conjunct2, THEN conjunct2, THEN conjunct1] p2 ma r sp sw
    by auto
  have f: "AnalyticTwoPointCounter ''rppi'' (EdgeArray [0, 1, 3]) None 10 None ''z'' =
         Inl (PairCounterError
           ''A tuple of edges should be provided to pair counter in mode rppi'')"
    using T[where e = "EdgeArray [0, 1, 3]" and es = "[[0, 1, 3]]" and md = "''rppi''"
          and b = None and ?m1.0 = 10 and ?m2.0 = None and l = "''z''",
        THEN conjunct2, THEN conjunct2, THEN conjunct2, THEN conjunct2] p1
    by simp
  from a b c d d3 e f show ?thesis by (intro conjI)
qed

section \<open>Analytic randoms in mode s\<close>

lemma foldl_fmul_Fin: "foldl fmul (Fin a) (map Fin b) = Fin (a * prod_list b)"
  by (induction b arbitrary: a) (simp_all add: mult.assoc)

lemma fprod_Fin: "fprod (map Fin b) = Fin (prod_list b)"
  by (simp add: fprod_def foldl_fmul_Fin)

lemma map2_tl_nth:
  "map2 f (tl v) v = map (\<lambda>i. f (v ! Suc i) (v ! i)) [0..<length v - 1]"
  by (rule nth_equalityI) (simp_all add: nth_tl)

lemma fdiff_Fin:
  "fdiff (map (\<lambda>a. Fin (g a)) e) = map (\<lambda>i. Fin (g (e ! Suc i) - g (e ! i))) [0..<length e - 1]"
  by (simp add: fdiff_def map2_tl_nth fsub_def)

lemma analytic_run_s:
  fixes self :: "'a analytic_scheme"
  assumes "mode self = ''s''" "edges self = e # es" "boxsize self = Some (NdVector (map Fin b))"
    and "prod_list b \<noteq> 0" "analytic_normalization self = Inr nrm"
  shows "analytic_run self =
     Inr (self\<lparr>wcounts := A1 (map (\<lambda>i. Fin (real_of_int nrm *
            (4 / 3 * pi * (e ! Suc i) ^ 3 - 4 / 3 * pi * (e ! i) ^ 3) / prod_list b))
          [0..<length e - 1])\<rparr>)"
proof -
  have v: "analytic_volumes self =
     Inr (A1 (map (\<lambda>i. Fin (4 / 3 * pi * (e ! Suc i) ^ 3 - 4 / 3 * pi * (e ! i) ^ 3))
       [0..<length e - 1]))"
    using assms(1,2) fdiff_Fin[of "\<lambda>a. 4 / 3 * pi * a ^ 3" e]
    by (simp add: analytic_volumes_def edge_def ebind_def Let_def)
  have p: "box_prod (boxsize self) = Inr (Fin (prod_list b))"
    using assms(3) by (simp add: box_prod_def fprod_Fin)
  show ?thesis
    using v p assms(4,5) by (simp add: analytic_run_def ebind_def o_def)
qed

text \<open>
  C6. An analytic counter in mode \<^verbatim>\<open>s\<close>, built on a non-empty array of edges, a box stored
  as a vector of side lengths of non-zero volume and an allowed line of sight, has in bin
  \<open>i\<close> the count \<open>normalization * (4/3 pi e\<^sub>i\<^sub>+\<^sub>1\<^sup>3 - 4/3 pi e\<^sub>i\<^sup>3) / volume\<close>, where the volume is
  the product of the side lengths and the normalization is \<open>n1 * (n1 - 1)\<close> without
  \<^verbatim>\<open>n2\<close> and \<open>n1 * n2\<close> with it.
\<close>

theorem analytic_s_wcounts:
  assumes "l \<in> set [''midpoint'', ''endpoint'', ''firstpoint'', ''x'', ''y'', ''z'']"
    and "e \<noteq> []" and "prod_list b \<noteq> 0"
  shows "\<exists>self. AnalyticTwoPointCounter ''s'' (EdgeArray e) (Some (NdVector (map Fin b))) m1 m2 l
           = Inr self
     \<and> analytic_normalization self =
         Inr (case m2 of None \<Rightarrow> m1 * (m1 - 1) | Some k \<Rightarrow> m1 * k)
     \<and> wcounts self =
         A1 (map (\<lambda>i. Fin (real_of_int (case m2 of None \<Rightarrow> m1 * (m1 - 1) | Some k \<Rightarrow> m1 * k) *
                  (4 / 3 * pi * (e ! Suc i) ^ 3 - 4 / 3 * pi * (e ! i) ^ 3) / prod_list b))
               [0..<length e - 1])"
proof -
  let ?nrm = "case m2 of None \<Rightarrow> m1 * (m1 - 1) | Some k \<Rightarrow> m1 * k"
  let ?w = "A1 (map (\<lambda>i. Fin (real_of_int ?nrm *
                  (4 / 3 * pi * (e ! Suc i) ^ 3 - 4 / 3 * pi * (e ! i) ^ 3) / prod_list b))
               [0..<length e - 1])"
  let ?s0 = "blank_analytic\<lparr>mode := ''s''\<rparr>"
  from assms(2) obtain x xs where e: "e = x # xs" by (cases e) auto
  let ?bt = "if allclose e (linspace (hd e) (last e) (length e)) then ''lin'' else ''auto''"
  let ?s1 = "?s0\<lparr>edges := [e], bin_type := ?bt\<rparr>"
  have 1: "set_edges (EdgeArray e) ''auto'' ?s0 = Inr ?s1"
    using set_bin_type_auto[OF lower_auto, of "?s0\<lparr>edges := [e]\<rparr>" e "[]"] assms(2) e
    by (simp add: set_edges_def promote_edges_def ebind_def ndim_def Let_def)
  let ?s2 = "?s1\<lparr>boxsize := Some (NdVector (map Fin b))\<rparr>"
  have 2: "set_boxsize (Some (NdVector (map Fin b))) ?s1 = Inr ?s2"
    by (simp add: set_boxsize_result)
  let ?s3 = "?s2\<lparr>los := l\<rparr>"
  have 3: "set_los l ?s2 = Inr ?s3"
    using assms(1) by (simp add: set_los_def)
  let ?s3' = "?s3\<lparr>n1 := m1, n2 := m2, autocorr := (m2 = None)\<rparr>"
  have nrm: "analytic_normalization ?s3' = Inr ?nrm"
    by (simp add: analytic_normalization_def split: option.splits)
  let ?s4 = "?s3'\<lparr>wcounts := ?w\<rparr>"
  have 4: "analytic_run ?s3' = Inr ?s4"
    using analytic_run_s[of ?s3' e "[]" b ?nrm] assms(3) nrm by simp
  let ?s5 = "?s4\<lparr>sep := A1 (map Fin (midpoints e))\<rparr>"
  have 5: "set_default_sep ?s4 = Inr ?s5"
    using set_default_sep_one_dimension[of ?s4 e] by simp
  have "AnalyticTwoPointCounter ''s'' (EdgeArray e) (Some (NdVector (map Fin b))) m1 m2 l = Inr ?s5"
    unfolding AnalyticTwoPointCounter_def ebind_def using 1 2 3 4 5 by simp
  moreover have "analytic_normalization ?s5 = Inr ?nrm"
    by (simp add: analytic_normalization_def split: option.splits)
  moreover have "wcounts ?s5 = ?w" by simp
  ultimately show ?thesis by blast
qed

theorem analytic_s_wcounts_witness:
  "''z'' \<in> set [''midpoint'', ''endpoint'', ''firstpoint'', ''x'', ''y'', ''z'']
   \<and> [0, 1, 2 :: real] \<noteq> [] \<and> prod_list [10, 10, 10 :: real] \<noteq> 0
   \<and> (\<exists>self. AnalyticTwoPointCounter ''s'' (EdgeArray [0, 1, 2])
          (Some (NdVector [Fin 10, Fin 10, Fin 10])) 10 None ''z'' = Inr self
        \<and> analytic_normalization self = Inr 90
        \<and> wcounts self = A1 [Fin (3 * pi / 25), Fin (21 * pi / 25)])
   \<and> (\<exists>self. AnalyticTwoPointCounter ''s'' (EdgeArray [0, 1, 2])
          (Some (NdVector [Fin 10, Fin 10, Fin 10])) 10 (Some 20) ''z'' = Inr self
        \<and> analytic_normalization self = Inr 200
        \<and> wcounts self = A1 [Fin (4 * pi / 15), Fin (28 * pi / 15)])"
proof -
  have h1: "''z'' \<in> set [''midpoint'', ''endpoint'', ''firstpoint'', ''x'', ''y'', ''z'']"
    by simp
  have h2: "[0, 1, 2 :: real] \<noteq> []" by simp
  have h3: "prod_list [10, 10, 10 :: real] \<noteq> 0" by simp
  have up: "[0..<2] = [0, 1]" by (simp add: upt_conv_Cons)
  have a: "\<exists>self. AnalyticTwoPointCounter ''s'' (EdgeArray [0, 1, 2])
          (Some (NdVector [Fin 10, Fin 10, Fin 10])) 10 None ''z'' = Inr self
        \<and> analytic_normalization self = Inr 90
        \<and> wcounts self = A1 [Fin (3 * pi / 25), Fin (21 * pi / 25)]"
    using analytic_s_wcounts[OF h1 h2 h3, of 10 None] by (simp add: up)
  have b: "\<exists>self. AnalyticTwoPointCounter ''s'' (EdgeArray [0, 1, 2])
          (Some (NdVector [Fin 10, Fin 10, Fin 10])) 10 (Some 20) ''z'' = Inr self
        \<and> analytic_normalization self = Inr 200
        \<and> wcounts self = A1 [Fin (4 * pi / 15), Fin (28 * pi / 15)]"
    using analytic_s_wcounts[OF h1 h2 h3, of 10 "Some 20"] by (simp add: up)
  from h1 h2 h3 a b show ?thesis by (intro conjI)
qed

text \<open>
  A box given as a number is stored as that number (see C1), and \<^verbatim>\<open>self.boxsize.prod()\<close>
  then has nothing to call.
\<close>

lemma analytic_scalar_box:
  "AnalyticTwoPointCounter ''s'' (EdgeArray [0, 1, 2]) (Some (Number 10)) 10 None ''z'' =
     Inl AttributeError"
  by (simp add: AnalyticTwoPointCounter_def eval_defs blank_analytic_def analytic_run_def
      analytic_volumes_def edge_def analytic_normalization_def box_prod_def)

section \<open>Analytic randoms: modes without a closed form\<close>

lemma analytic_volumes_unsupported:
  "mode self \<notin> set [''s'', ''smu'', ''rppi'', ''rp''] \<Longrightarrow>
   analytic_volumes self =
     Inl (PairCounterError (''No analytic randoms provided for mode '' @ mode self))"
  by (simp add: analytic_volumes_def)

text \<open>
  C7. For a mode other than \<^verbatim>\<open>s\<close>, \<^verbatim>\<open>smu\<close>, \<^verbatim>\<open>rppi\<close> and \<^verbatim>\<open>rp\<close> (for \<^verbatim>\<open>theta\<close> in
  particular), \<^verbatim>\<open>run\<close> of the analytic counter raises the \<^verbatim>\<open>PairCounterError\<close> that no
  analytic randoms are provided for the mode; the construction of such a counter never
  succeeds, and when the edges, the box and the line of sight pass their own checks, that
  error is the one the construction raises.
\<close>

theorem analytic_unsupported_mode:
  assumes "md \<notin> set [''s'', ''smu'', ''rppi'', ''rp'']"
  shows "(mode self = md \<longrightarrow>
            analytic_run self =
              Inl (PairCounterError (''No analytic randoms provided for mode '' @ md)))
         \<and> (\<exists>err. AnalyticTwoPointCounter md e b m1 m2 l = Inl err)
         \<and> (\<forall>self3. ebind (set_edges e ''auto'' (blank_analytic\<lparr>mode := md\<rparr>))
                (\<lambda>self1. ebind (set_boxsize b self1) (set_los l)) = Inr self3 \<longrightarrow>
              AnalyticTwoPointCounter md e b m1 m2 l =
                Inl (PairCounterError (''No analytic randoms provided for mode '' @ md)))"
proof -
  have run: "analytic_run s =
      Inl (PairCounterError (''No analytic randoms provided for mode '' @ md))"
    if "mode s = md" for s :: "'b analytic_scheme"
    using that assms analytic_volumes_unsupported[of s]
    by (simp add: analytic_run_def ebind_def)
  have ctor: "AnalyticTwoPointCounter md e b m1 m2 l =
      Inl (PairCounterError (''No analytic randoms provided for mode '' @ md))"
    if ok: "ebind (set_edges e ''auto'' (blank_analytic\<lparr>mode := md\<rparr>))
                (\<lambda>self1. ebind (set_boxsize b self1) (set_los l)) = Inr self3" for self3
  proof -
    from ok obtain s1 s2 where
      1: "set_edges e ''auto'' (blank_analytic\<lparr>mode := md\<rparr>) = Inr s1" and
      2: "set_boxsize b s1 = Inr s2" and 3: "set_los l s2 = Inr self3"
      by (auto simp: ebind_def split: sum.splits)
    have "mode self3 = md"
      using set_edges_mode[OF 1] set_boxsize_mode[OF 2] set_los_mode[OF 3] by simp
    then have "analytic_run (self3\<lparr>n1 := m1, n2 := m2, autocorr := (m2 = None)\<rparr>) =
      Inl (PairCounterError (''No analytic randoms provided for mode '' @ md))"
      by (intro run) simp
    then show ?thesis
      using 1 2 3 by (simp add: AnalyticTwoPointCounter_def ebind_def)
  qed
  have fails: "\<exists>err. AnalyticTwoPointCounter md e b m1 m2 l = Inl err"
  proof (cases "ebind (set_edges e ''auto'' (blank_analytic\<lparr>mode := md\<rparr>))
                (\<lambda>self1. ebind (set_boxsize b self1) (set_los l))")
    case (Inl err)
    then show ?thesis
      by (auto simp: AnalyticTwoPointCounter_def ebind_def split: sum.splits)
  next
    case (Inr s)
    then show ?thesis using ctor by blast
  qed
  show ?thesis using run ctor fails by blast
qed

theorem analytic_unsupported_mode_witness:
  "''theta'' \<notin> set [''s'', ''smu'', ''rppi'', ''rp'']
   \<and> analytic_run (blank_analytic\<lparr>mode := ''theta''\<rparr>) =
       Inl (PairCounterError ''No analytic randoms provided for mode theta'')
   \<and> AnalyticTwoPointCounter ''theta'' (EdgeArray [1, 2, 3])
       (Some (NdVector [Fin 10, Fin 10, Fin 10])) 10 None ''z'' =
       Inl (PairCounterError ''No analytic randoms provided for mode theta'')"
proof -
  have h: "''theta'' \<notin> set [''s'', ''smu'', ''rppi'', ''rp'']" by simp
  have ok: "ebind (set_edges (EdgeArray [1, 2, 3]) ''auto'' (blank_analytic\<lparr>mode := ''theta''\<rparr>))
              (\<lambda>self1. ebind (set_boxsize (Some (NdVector [Fin 10, Fin 10, Fin 10])) self1)
                 (set_los ''z''))
        = Inr (blank_analytic\<lparr>mode := ''theta'', edges := [[1, 2, 3]], bin_type := ''lin'',
                 boxsize := Some (NdVector [Fin 10, Fin 10, Fin 10]), los := ''z''\<rparr>)"
    by (simp add: ebind_def set_edges_def promote_edges_def ndim_def set_bin_type_def lower_def
        lower_char_def allclose_def linspace_def isclose_def set_boxsize_def periodic_def
        set_los_def blank_analytic_def Let_def)
  show ?thesis
    using h analytic_unsupported_mode[OF h, of "blank_analytic\<lparr>mode := ''theta''\<rparr>"
        "EdgeArray [1, 2, 3]" "Some (NdVector [Fin 10, Fin 10, Fin 10])" 10 None "''z''"] ok
    by simp
qed

section \<open>Weights of the two catalogs\<close>

lemma set_positions_autocorr:
  "set_positions c2s s2c p1 p2 pt self = Inr self' \<Longrightarrow> autocorr self' = (p2 = None)"
  by (auto simp: set_positions_def ebind_def Let_def split: sum.splits option.splits)

lemma set_weights_asymmetric:
  assumes "\<not> autocorr self" "(w1 = None) \<noteq> (w2 = None)"
  shows "set_weights w1 w2 wt self =
     Inl (PairCounterError
       (if wt \<notin> set [None, Some ''auto'', Some ''pair_product'']
        then ''weight_type should be one of [None, 'auto', 'pair_product']''
        else if w1 = None then ''weights2 are provided, but not weights1''
        else ''weights1 are provided, but not weights2''))"
  using assms
  by (auto simp: set_weights_def set_weight_type_def weights_presence_def ebind_def)

text \<open>
  C8. With a second catalog (\<^verbatim>\<open>autocorr\<close> false), weights for exactly one of the two
  catalogs make \<^verbatim>\<open>_set_weights\<close> raise a \<^verbatim>\<open>PairCounterError\<close> (the one for the missing
  weights, unless the weight type itself is refused first), and the construction fails;
  with weights for both or for none, the presence check passes.
\<close>

theorem weights_symmetry:
  fixes self :: "'a counter_scheme"
  shows "(\<not> autocorr self \<and> (w1 = None) \<noteq> (w2 = None) \<longrightarrow>
            set_weights w1 w2 wt self =
              Inl (PairCounterError
                (if wt \<notin> set [None, Some ''auto'', Some ''pair_product'']
                 then ''weight_type should be one of [None, 'auto', 'pair_product']''
                 else if w1 = None then ''weights2 are provided, but not weights1''
                 else ''weights1 are provided, but not weights2'')))
   \<and> (\<not> autocorr self \<and> (w1 = None) = (w2 = None) \<longrightarrow> weights_presence w1 w2 self = Inr ())
   \<and> (arg_positions2 a \<noteq> None \<and> (arg_weights1 a = None) \<noteq> (arg_weights2 a = None) \<longrightarrow>
        (\<exists>err. init ext a = Inl err))"
proof (intro conjI impI)
  assume "\<not> autocorr self \<and> (w1 = None) \<noteq> (w2 = None)"
  then show "set_weights w1 w2 wt self =
              Inl (PairCounterError
                (if wt \<notin> set [None, Some ''auto'', Some ''pair_product'']
                 then ''weight_type should be one of [None, 'auto', 'pair_product']''
                 else if w1 = None then ''weights2 are provided, but not weights1''
                 else ''weights1 are provided, but not weights2''))"
    using set_weights_asymmetric by blast
next
  assume "\<not> autocorr self \<and> (w1 = None) = (w2 = None)"
  then show "weights_presence w1 w2 self = Inr ()"
    by (auto simp: weights_presence_def)
next
  assume h: "arg_positions2 a \<noteq> None \<and> (arg_weights1 a = None) \<noteq> (arg_weights2 a = None)"
  show "\<exists>err. init ext a = Inl err"
  proof (cases "init ext a")
    case (Inl err)
    then show ?thesis by blast
  next
    case (Inr c)
    then obtain s1 s2 nt where
      1: "set_positions (cartesian_to_sky ext) (sky_to_cartesian ext)
       (arg_positions1 a) (arg_positions2 a) (arg_position_type a)
       (blank\<lparr>mode := arg_mode a, nthreads := nt\<rparr>) = Inr s1" and
      2: "set_weights (arg_weights1 a) (arg_weights2 a) (arg_weight_type a) s1 = Inr s2"
      by (rule init_steps)
    from set_positions_autocorr[OF 1] h have "\<not> autocorr s1" by simp
    with h set_weights_asymmetric[of s1 "arg_weights1 a" "arg_weights2 a" "arg_weight_type a"] 2
    show ?thesis by simp
  qed
qed

theorem weights_symmetry_witness:
  "set_weights (Some [1, 2]) None (Some ''auto'') (blank\<lparr>autocorr := False\<rparr>) =
      Inl (PairCounterError ''weights1 are provided, but not weights2'')
   \<and> set_weights None (Some [1, 2]) (Some ''auto'') (blank\<lparr>autocorr := False\<rparr>) =
      Inl (PairCounterError ''weights2 are provided, but not weights1'')
   \<and> weights_presence (Some [1, 2]) (Some [3, 4]) (blank\<lparr>autocorr := False\<rparr>) = Inr ()
   \<and> weights_presence None None (blank\<lparr>autocorr := False\<rparr>) = Inr ()
   \<and> (\<exists>err. init example_externals
          (example_arguments\<lparr>arg_positions2 := Some (arg_positions1 example_arguments),
             arg_weights1 := Some [1, 1, 1]\<rparr>) = Inl err)"
proof -
  let ?s = "blank\<lparr>autocorr := False\<rparr>"
  note T = weights_symmetry
  have a: "set_weights (Some [1, 2]) None (Some ''auto'') ?s =
      Inl (PairCounterError ''weights1 are provided, but not weights2'')"
    using T[of ?s "Some [1, 2]" None "Some ''auto''"] by simp
  have b: "set_weights None (Some [1, 2]) (Some ''auto'') ?s =
      Inl (PairCounterError ''weights2 are provided, but not weights1'')"
    using T[of ?s None "Some [1, 2]" "Some ''auto''"] by simp
  have c: "weights_presence (Some [1, 2]) (Some [3, 4]) ?s = Inr ()"
    using T[of ?s "Some [1, 2]" "Some [3, 4]"] by simp
  have d: "weights_presence None None ?s = Inr ()"
    using T[of ?s None None] by simp
  have e: "\<exists>err. init example_externals
          (example_arguments\<lparr>arg_positions2 := Some (arg_positions1 example_arguments),
             arg_weights1 := Some [1, 1, 1]\<rparr>) = Inl err"
    using T[of ?s _ _ _ "example_arguments\<lparr>arg_positions2 := Some (arg_positions1 example_arguments),
             arg_weights1 := Some [1, 1, 1]\<rparr>" example_externals]
    by (simp add: example_arguments_def)
  from a b c d e show ?thesis by blast
qed

section \<open>Default separations\<close>

lemma length_midpoints [simp]: "length (midpoints e) = length e - 1"
  by (simp add: midpoints_def)

lemma empty2_shape:
  assumes "edges self = [e, e']" "e \<noteq> []" "e' \<noteq> []"
  shows "empty2 (shape self) = Inr (length e - 1, length e' - 1)"
proof -
  have "nat (int (length e) - 1) = length e - 1" "nat (int (length e') - 1) = length e' - 1"
    by linarith+
  moreover have "\<not> int (length e) - 1 < 0" "\<not> int (length e') - 1 < 0"
    using assms by (simp_all add: Suc_leI)
  ultimately show ?thesis using assms(1) by (simp add: empty2_def shape_def)
qed

lemma set_default_sep_square:
  assumes "edges self = [e, e']" "e \<noteq> []" "e' \<noteq> []"
  shows "set_default_sep self =
     (if length e = length e' then
        Inr (self\<lparr>sep := A2 (replicate (length e - 1) (map Fin (midpoints e)))\<rparr>)
      else if length e = 2 then
        Inr (self\<lparr>sep := A2 [replicate (length e' - 1) (Fin (hd (midpoints e)))]\<rparr>)
      else Inl ValueError)"
proof -
  let ?s = "map Fin (midpoints e)"
  have pos: "0 < length e" "0 < length e'" using assms by simp_all
  have len: "length ?s = length e - 1" by simp
  have a: "assign_all (length e - 1, length e' - 1) ?s =
     (if length e = length e' then Inr (replicate (length e - 1) ?s)
      else if length e = 2 then Inr [replicate (length e' - 1) (Fin (hd (midpoints e)))]
      else Inl ValueError)"
  proof (cases "length e = length e'")
    case True
    then show ?thesis unfolding assign_all_def using len by simp
  next
    case ne: False
    then have ne': "length ?s \<noteq> length e' - 1" using pos len by linarith
    show ?thesis
    proof (cases "length e = 2")
      case True
      then have l1: "length (midpoints e) = 1" by simp
      then obtain m where m: "midpoints e = [m]"
        by (cases "midpoints e") auto
      show ?thesis unfolding assign_all_def using ne ne' True m by simp
    next
      case False
      then have "length ?s \<noteq> 1" using pos len by linarith
      then show ?thesis unfolding assign_all_def using ne ne' False by simp
    qed
  qed
  have "set_default_sep self =
    ebind (assign_all (length e - 1, length e' - 1) ?s) (\<lambda>m. Inr (self\<lparr>sep := A2 m\<rparr>))"
    using assms empty2_shape[OF assms]
    by (simp add: set_default_sep_def ndim_def ebind_def Let_def)
  then show ?thesis using a by (simp add: ebind_def)
qed

text \<open>
  C9 (the code departs from the claim). The claim: with \<^verbatim>\<open>output_sepavg=False\<close> the
  separation of bin \<open>(i, j)\<close> is the midpoint of bin \<open>i\<close> of the first dimension. The code,
  for the edges \<^verbatim>\<open>([0, 1, 3], [0, 1, 2])\<close>: every row of \<^verbatim>\<open>sep\<close> is the whole vector of
  midpoints \<^verbatim>\<open>[0.5, 2]\<close>, so bin \<open>(i, j)\<close> holds the midpoint of bin \<open>j\<close>, where the claim
  gives \<^verbatim>\<open>[[0.5, 0.5], [2, 2]]\<close>; for the edges \<^verbatim>\<open>([0, 1, 3], [0, 1, 2, 3])\<close>, two bins
  by three, the assignment raises \<^verbatim>\<open>ValueError\<close> and no counter is built.
\<close>

theorem default_sep_two_dimensions:
  "set_default_sep (blank\<lparr>mode := ''smu'', edges := [[0, 1, 3], [0, 1, 2]]\<rparr>) =
     Inr (blank\<lparr>mode := ''smu'', edges := [[0, 1, 3], [0, 1, 2]],
            sep := A2 [[Fin (1 / 2), Fin 2], [Fin (1 / 2), Fin 2]]\<rparr>)
   \<and> spec_default_sep [[0, 1, 3], [0, 1, 2]] =
       A2 [[Fin (1 / 2), Fin (1 / 2)], [Fin 2, Fin 2]]
   \<and> set_default_sep (blank\<lparr>mode := ''smu'', edges := [[0, 1, 3], [0, 1, 2, 3]]\<rparr>) =
       Inl ValueError
   \<and> (case init example_externals
            (example_arguments\<lparr>arg_mode := ''smu'', arg_edges := EdgeTuple [[0, 1, 3], [0, 1, 2]],
               arg_output_sepavg := False\<rparr>) of
         Inl err \<Rightarrow> None | Inr c \<Rightarrow> Some (sep c)) =
       Some (A2 [[Fin (1 / 2), Fin 2], [Fin (1 / 2), Fin 2]])
   \<and> init example_externals
        (example_arguments\<lparr>arg_mode := ''smu'', arg_edges := EdgeTuple [[0, 1, 3], [0, 1, 2, 3]],
           arg_output_sepavg := False\<rparr>) = Inl ValueError"
  by (simp add: eval_defs spec_default_sep_def numeral_3_eq_3 numeral_2_eq_2)

lemma set_default_sep_agrees_one_dimension:
  "edges self = [e] \<Longrightarrow>
   set_default_sep self = Inr (self\<lparr>sep := spec_default_sep (edges self)\<rparr>)"
  by (simp add: set_default_sep_def ndim_def spec_default_sep_def Let_def)

section \<open>Thread count\<close>

lemma set_positions_nthreads:
  "set_positions c2s s2c p1 p2 pt self = Inr self' \<Longrightarrow> nthreads self' = nthreads self"
  by (auto simp: set_positions_def ebind_def Let_def split: sum.splits option.splits)

lemma set_weights_nthreads:
  "set_weights w1 w2 wt self = Inr self' \<Longrightarrow> nthreads self' = nthreads self"
  by (auto simp: set_weights_def set_weight_type_def ebind_def Let_def
      split: sum.splits if_splits)

lemma set_edges_nthreads: "set_edges e bt self = Inr self' \<Longrightarrow> nthreads self' = nthreads self"
  by (auto simp: set_edges_def set_bin_type_def ebind_def Let_def
      split: sum.splits if_splits list.splits)

lemma set_los_nthreads: "set_los l self = Inr self' \<Longrightarrow> nthreads self' = nthreads self"
  by (auto simp: set_los_def split: if_splits)

lemma set_boxsize_nthreads: "set_boxsize b self = Inr self' \<Longrightarrow> nthreads self' = nthreads self"
  by (auto simp: set_boxsize_result split: option.splits)

lemma set_default_sep_nthreads:
  "set_default_sep self = Inr self' \<Longrightarrow> nthreads self' = nthreads self"
  by (auto simp: set_default_sep_def ebind_def Let_def split: sum.splits if_splits list.splits)

lemma set_default_sep_wcounts:
  "set_default_sep self = Inr self' \<Longrightarrow> wcounts self' = wcounts self"
  by (auto simp: set_default_sep_def ebind_def Let_def split: sum.splits if_splits list.splits)

lemma resolve_nthreads_environ:
  "env' ''OMP_NUM_THREADS'' = env ''OMP_NUM_THREADS'' \<Longrightarrow>
   resolve_nthreads env' nt = resolve_nthreads env nt"
  by (cases nt) (simp_all add: resolve_nthreads_def getenv_def)

lemma py_int_1: "py_int ''1'' = Inr 1"
  by (simp add: py_int_def strip_def is_space_def parse_decimal_def digit_of_def)

lemma digit_cases: "d < 10 \<Longrightarrow> d \<in> {0, 1, 2, 3, 4, 5, 6, 7, 8, 9 :: nat}"
  by auto

lemma digit_of_digit_char: "d < 10 \<Longrightarrow> digit_of (digit_char d) = Some d"
  using digit_cases[of d] by (auto simp: digit_of_def digit_char_def)

lemma is_digit_digit_char: "d < 10 \<Longrightarrow> is_digit (digit_char d)"
  using digit_cases[of d] by (auto simp: is_digit_def digit_char_def)

lemma is_digit_props:
  assumes "is_digit c"
  shows "\<not> is_space c" "c \<noteq> CHR ''-''" "c \<noteq> CHR ''+''" "c \<noteq> CHR ''_''"
    "digit_of c = Some (of_char c - 48)"
  using assms by (auto simp: is_digit_def is_space_def digit_of_def)

lemma digit_of_Some: "digit_of c = Some v \<Longrightarrow> is_digit c \<and> v = of_char c - 48"
  by (auto simp: digit_of_def is_digit_def split: if_splits)

lemma not_digit_underscore: "\<not> is_digit (CHR ''_'')" "\<not> is_digit (CHR ''-'')" "\<not> is_digit (CHR ''+'')"
  by (simp_all add: is_digit_def)

lemma space_not_digit: "is_space c \<Longrightarrow> \<not> is_digit c"
  using is_digit_props(1) by blast


lemma parse_digits_digit:
  "is_digit c \<Longrightarrow> parse_digits (c # cs) acc = parse_digits cs (10 * acc + (of_char c - 48))"
  by (cases cs) (simp_all add: is_digit_props)

lemma parse_digits_all_digits:
  "list_all is_digit cs \<Longrightarrow>
   parse_digits cs acc = Some (foldl (\<lambda>a c. 10 * a + (of_char c - 48)) acc cs)"
  by (induction cs arbitrary: acc) (simp_all add: parse_digits_digit del: parse_digits.simps(3))

lemma parse_digits_sound:
  "parse_digits cs acc = Some n \<Longrightarrow>
   n = foldl (\<lambda>a c. 10 * a + (of_char c - 48)) acc (filter is_digit cs)
   \<and> (\<forall>c \<in> set cs. is_digit c \<or> c = CHR ''_'')"
proof (induction cs acc arbitrary: n rule: parse_digits.induct)
  case (1 acc)
  then show ?case by simp
next
  case (2 c acc)
  then show ?case by (auto split: option.splits dest: digit_of_Some)
next
  case (3 c d ds acc)
  show ?case
  proof (cases "c = CHR ''_''")
    case True
    with "3.prems" obtain v where v: "digit_of d = Some v"
      and p: "parse_digits ds (10 * acc + v) = Some n"
      by (auto split: option.splits)
    from digit_of_Some[OF v] have d: "is_digit d" "v = of_char d - 48" by simp_all
    from "3.IH"(1)[OF True v p] d True show ?thesis
      by (simp add: not_digit_underscore)
  next
    case False
    with "3.prems" obtain v where v: "digit_of c = Some v"
      and p: "parse_digits (d # ds) (10 * acc + v) = Some n"
      by (auto split: option.splits)
    from digit_of_Some[OF v] have c: "is_digit c" "v = of_char c - 48" by simp_all
    from "3.IH"(2)[OF False v p] c show ?thesis by simp
  qed
qed

lemma parse_decimal_sound:
  assumes "parse_decimal t = Some n"
  shows "n = decimal_value (filter is_digit t)" "\<forall>c \<in> set t. is_digit c \<or> c = CHR ''_''"
proof -
  from assms obtain c cs v where t: "t = c # cs" and v: "digit_of c = Some v"
    and p: "parse_digits cs v = Some n"
    by (auto simp: parse_decimal_def split: list.splits option.splits)
  from digit_of_Some[OF v] have c: "is_digit c" "v = of_char c - 48" by simp_all
  from parse_digits_sound[OF p] c t
  show "n = decimal_value (filter is_digit t)" "\<forall>c \<in> set t. is_digit c \<or> c = CHR ''_''"
    by (simp_all add: decimal_value_def)
qed

lemma decimal_digits: "list_all is_digit (decimal n) \<and> decimal n \<noteq> []"
proof (induction n rule: decimal.induct)
  case (1 n)
  show ?case
  proof (cases "n < 10")
    case True
    then show ?thesis by (simp add: decimal.simps[of n] is_digit_digit_char)
  next
    case False
    with 1 show ?thesis by (simp add: decimal.simps[of n] is_digit_digit_char)
  qed
qed

lemma of_char_digit_char: "d < 10 \<Longrightarrow> of_char (digit_char d) - 48 = d"
  using digit_of_digit_char[of d] is_digit_digit_char[of d] is_digit_props(5)[of "digit_char d"]
  by simp

lemma decimal_value_decimal: "decimal_value (decimal n) = n"
proof (induction n rule: decimal.induct)
  case (1 n)
  show ?case
  proof (cases "n < 10")
    case True
    then show ?thesis by (simp add: decimal.simps[of n] decimal_value_def of_char_digit_char)
  next
    case False
    then have "decimal_value (decimal (n div 10)) = n div 10" using 1 by simp
    with False show ?thesis
      by (simp add: decimal.simps[of n] decimal_value_def of_char_digit_char)
  qed
qed

lemma parse_decimal_decimal: "parse_decimal (decimal n) = Some n"
proof -
  from decimal_digits[of n] obtain c cs where d: "decimal n = c # cs" "is_digit c" "list_all is_digit cs"
    by (cases "decimal n") auto
  have "parse_decimal (decimal n) = parse_digits cs (of_char c - 48)"
    using d by (simp add: parse_decimal_def is_digit_props)
  also have "\<dots> = Some (decimal_value (c # cs))"
    using d(3) by (simp add: parse_digits_all_digits decimal_value_def)
  finally show ?thesis using d(1) decimal_value_decimal[of n] by simp
qed

lemma filter_dropWhile:
  "(\<And>x. Q x \<Longrightarrow> \<not> P x) \<Longrightarrow> filter P (dropWhile Q xs) = filter P xs"
  by (induction xs) auto

lemma filter_strip: "filter is_digit (strip s) = filter is_digit s"
proof -
  have "filter is_digit (strip s) = rev (filter is_digit (dropWhile is_space (rev (dropWhile is_space s))))"
    by (simp add: strip_def rev_filter)
  also have "\<dots> = rev (filter is_digit (rev (dropWhile is_space s)))"
    by (simp add: filter_dropWhile space_not_digit)
  also have "\<dots> = filter is_digit (dropWhile is_space s)" by (simp add: rev_filter)
  also have "\<dots> = filter is_digit s" by (simp add: filter_dropWhile space_not_digit)
  finally show ?thesis .
qed

lemma strip_blanks:
  assumes "list_all is_space ws" "list_all is_space ws'" "t \<noteq> []"
    "\<not> is_space (hd t)" "\<not> is_space (last t)"
  shows "strip (ws @ t @ ws') = t"
proof -
  from assms(3) obtain a t' where t: "t = a # t'" by (cases t) auto
  have 1: "dropWhile is_space (ws @ t @ ws') = t @ ws'"
    using assms(1,4) t by (simp add: dropWhile_append2 list_all_iff)
  from assms(3) obtain b t'' where r: "rev t = b # t''" by (cases "rev t") auto
  then have b: "b = last t" using assms(3) by (metis last_rev list.sel(1) rev_rev_ident hd_rev)
  have "dropWhile is_space (rev ws' @ b # t'') = dropWhile is_space (b # t'')"
    using assms(2) by (intro dropWhile_append2) (simp add: list_all_iff)
  also have "\<dots> = b # t''" using assms(5) b by simp
  finally have 2: "dropWhile is_space (rev (t @ ws')) = rev t"
    using r by simp
  show ?thesis by (simp only: strip_def 1 2 rev_rev_ident)
qed


lemma strip_decomposition:
  "\<exists>ws ws'. list_all is_space ws \<and> list_all is_space ws' \<and> s = ws @ strip s @ ws'"
proof -
  let ?d = "dropWhile is_space s"
  have 1: "s = takeWhile is_space s @ ?d" by simp
  have "strip s @ rev (takeWhile is_space (rev ?d)) =
      rev (takeWhile is_space (rev ?d) @ dropWhile is_space (rev ?d))"
    by (simp only: strip_def rev_append)
  also have "\<dots> = rev (rev ?d)" by (simp only: takeWhile_dropWhile_id)
  finally have 2: "?d = strip s @ rev (takeWhile is_space (rev ?d))" by simp
  have a: "list_all is_space (takeWhile is_space s)"
    by (auto simp: list_all_iff dest: set_takeWhileD)
  have b: "list_all is_space (rev (takeWhile is_space (rev ?d)))"
    by (auto simp: list_all_iff dest: set_takeWhileD)
  from 1 2 have "s = takeWhile is_space s @ strip s @ rev (takeWhile is_space (rev ?d))"
    by metis
  with a b show ?thesis by blast
qed

lemma str_int_shape:
  "str_int z \<noteq> [] \<and> \<not> is_space (hd (str_int z)) \<and> \<not> is_space (last (str_int z))"
proof -
  have d: "list_all is_digit (decimal n)" "decimal n \<noteq> []" for n
    using decimal_digits[of n] by simp_all
  have h: "\<not> is_space (hd (decimal n))" "\<not> is_space (last (decimal n))" for n
    using d[of n] by (auto simp: list_all_iff dest: is_digit_props(1))
  have m: "\<not> is_space (CHR ''-'')" by (simp add: is_space_def)
  show ?thesis using d h m by (simp add: str_int_def)
qed

lemma py_int_stripped_str_int:
  assumes "strip s = str_int z"
  shows "py_int s = Inr z"
proof (cases "z < 0")
  case True
  then show ?thesis
    using assms by (simp add: py_int_def str_int_def parse_decimal_decimal)
next
  case False
  from decimal_digits[of "nat z"] obtain c cs where d: "decimal (nat z) = c # cs" "is_digit c"
    by (cases "decimal (nat z)") auto
  have "parse_decimal (c # cs) = Some (nat z)" using parse_decimal_decimal[of "nat z"] d by simp
  then show ?thesis
    using assms False d by (simp add: py_int_def str_int_def is_digit_props)
qed

lemma py_int_str_int:
  assumes "list_all is_space ws" "list_all is_space ws'"
  shows "py_int (ws @ str_int z @ ws') = Inr z"
  using strip_blanks[OF assms, of "str_int z"] str_int_shape[of z]
  by (intro py_int_stripped_str_int) simp

lemma py_int_sound:
  assumes "py_int s = Inr z"
  shows "\<bar>z\<bar> = int (decimal_value (filter is_digit s))"
    and "z < 0 \<longrightarrow> hd (strip s) = CHR ''-''"
    and "strip s \<noteq> []"
    and "is_digit (hd (strip s)) \<or> hd (strip s) = CHR ''-'' \<or> hd (strip s) = CHR ''+''"
    and "\<forall>c \<in> set (tl (strip s)). is_digit c \<or> c = CHR ''_''"
proof -
  from assms obtain c cs where t: "strip s = c # cs"
    by (auto simp: py_int_def split: list.splits)
  have f: "filter is_digit s = filter is_digit (c # cs)" using filter_strip[of s] t by simp
  consider (neg) "c = CHR ''-''" | (pos) "c = CHR ''+''" | (dig) "c \<noteq> CHR ''-''" "c \<noteq> CHR ''+''"
    by blast
  then have "\<bar>z\<bar> = int (decimal_value (filter is_digit (c # cs)))
      \<and> (z < 0 \<longrightarrow> c = CHR ''-'')
      \<and> (is_digit c \<or> c = CHR ''-'' \<or> c = CHR ''+'')
      \<and> (\<forall>x \<in> set cs. is_digit x \<or> x = CHR ''_'')"
  proof cases
    case neg
    with assms t obtain n where n: "parse_decimal cs = Some n" "z = - int n"
      by (auto simp: py_int_def split: option.splits)
    from parse_decimal_sound[OF n(1)] n(2) neg show ?thesis
      by (simp add: not_digit_underscore)
  next
    case pos
    with assms t obtain n where n: "parse_decimal cs = Some n" "z = int n"
      by (auto simp: py_int_def split: option.splits)
    from parse_decimal_sound[OF n(1)] n(2) pos show ?thesis
      by (simp add: not_digit_underscore)
  next
    case dig
    with assms t obtain n where n: "parse_decimal (c # cs) = Some n" "z = int n"
      by (auto simp: py_int_def split: option.splits)
    from n(1) obtain v where "digit_of c = Some v"
      by (auto simp: parse_decimal_def split: option.splits)
    then have c: "is_digit c" using digit_of_Some by blast
    from n(1) obtain v where v: "digit_of c = Some v" and p: "parse_digits cs v = Some n"
      by (auto simp: parse_decimal_def split: option.splits)
    from parse_digits_sound[OF p] parse_decimal_sound(1)[OF n(1)] n(2) c show ?thesis
      by simp
  qed
  with t f show "\<bar>z\<bar> = int (decimal_value (filter is_digit s))"
    and "z < 0 \<longrightarrow> hd (strip s) = CHR ''-''"
    and "strip s \<noteq> []"
    and "is_digit (hd (strip s)) \<or> hd (strip s) = CHR ''-'' \<or> hd (strip s) = CHR ''+''"
    and "\<forall>c \<in> set (tl (strip s)). is_digit c \<or> c = CHR ''_''"
    by simp_all
qed

lemma py_int_error: "py_int s = Inl e \<Longrightarrow> e = ValueError"
  by (auto simp: py_int_def split: list.splits if_splits option.splits)

lemma init_nthreads:
  assumes "init ext a = Inr c"
  shows "resolve_nthreads (environ ext) (arg_nthreads a) = Inr (nthreads c)
     \<and> (\<exists>s ws. nthreads s = nthreads c \<and> engine_run ext s = Inr ws \<and> wcounts c = fst ws)"
proof -
  from assms obtain nt s1 s2 s3 s4 s5 ws s7 n where st:
    "resolve_nthreads (environ ext) (arg_nthreads a) = Inr nt"
    "set_positions (cartesian_to_sky ext) (sky_to_cartesian ext)
       (arg_positions1 a) (arg_positions2 a) (arg_position_type a)
       (blank\<lparr>mode := arg_mode a, nthreads := nt\<rparr>) = Inr s1"
    "set_weights (arg_weights1 a) (arg_weights2 a) (arg_weight_type a) s1 = Inr s2"
    "set_edges (arg_edges a) (arg_bin_type a) s2 = Inr s3"
    "set_los (arg_los a) s3 = Inr s4"
    "set_boxsize (arg_boxsize a) s4 = Inr s5"
    "engine_run ext (s5\<lparr>output_sepavg := arg_output_sepavg a\<rparr>) = Inr ws"
    "(if \<not> arg_output_sepavg a
      then set_default_sep
             (s5\<lparr>output_sepavg := arg_output_sepavg a, wcounts := fst ws, sep := snd ws\<rparr>)
      else Inr (s5\<lparr>output_sepavg := arg_output_sepavg a, wcounts := fst ws, sep := snd ws\<rparr>))
     = Inr s7"
    "normalization s7 = Inr n"
    "c = s7\<lparr>norm_attr := n\<rparr>"
    by (rule init_steps)
  have n5: "nthreads s5 = nt"
    using set_positions_nthreads[OF st(2)] set_weights_nthreads[OF st(3)]
      set_edges_nthreads[OF st(4)] set_los_nthreads[OF st(5)] set_boxsize_nthreads[OF st(6)]
    by simp
  have n7: "nthreads s7 = nt" and w7: "wcounts s7 = fst ws"
    using st(8) n5
    by (auto split: if_splits dest: set_default_sep_nthreads set_default_sep_wcounts)
  have nc: "nthreads c = nt" and wc: "wcounts c = fst ws" using st(10) n7 w7 by simp_all
  have "resolve_nthreads (environ ext) (arg_nthreads a) = Inr (nthreads c)"
    using st(1) nc by simp
  moreover have "nthreads (s5\<lparr>output_sepavg := arg_output_sepavg a\<rparr>) = nthreads c"
    using n5 nc by simp
  ultimately show ?thesis using st(7) wc by blast
qed

text \<open>
  C10. Without \<^verbatim>\<open>nthreads\<close>, the thread count is \<^verbatim>\<open>int\<close> of the environment variable
  \<^verbatim>\<open>OMP_NUM_THREADS\<close>, and 1 when the variable is unset. As an integer: the decimal
  numeral of any integer, with blanks around it or without, is read as that integer;
  whatever \<^verbatim>\<open>int\<close> accepts is, between blanks, an optional sign followed by digits and
  underscores, and denotes the number its digits spell, negative only after a minus sign;
  every other value of the variable raises \<^verbatim>\<open>ValueError\<close>. A constructed counter stores
  the value read, and the engine has run on an object that stores it. The construction
  depends on the environment through this one variable only, and not at all when
  \<^verbatim>\<open>nthreads\<close> is given; no other operation takes the environment.
\<close>

theorem nthreads_resolved_once:
  "resolve_nthreads env None =
     py_int (case env ''OMP_NUM_THREADS'' of None \<Rightarrow> ''1'' | Some v \<Rightarrow> v)
   \<and> (env ''OMP_NUM_THREADS'' = None \<longrightarrow> resolve_nthreads env None = Inr 1)
   \<and> (list_all is_space ws \<and> list_all is_space ws' \<longrightarrow>
        py_int (ws @ str_int z @ ws') = Inr z)
   \<and> (list_all is_space ws \<and> list_all is_space ws'
        \<and> env ''OMP_NUM_THREADS'' = Some (ws @ str_int z @ ws') \<longrightarrow>
        resolve_nthreads env None = Inr z)
   \<and> (py_int s = Inr z \<longrightarrow>
        \<bar>z\<bar> = int (decimal_value (filter is_digit s))
        \<and> (z < 0 \<longrightarrow> hd (strip s) = CHR ''-'')
        \<and> strip s \<noteq> []
        \<and> (is_digit (hd (strip s)) \<or> hd (strip s) = CHR ''-'' \<or> hd (strip s) = CHR ''+'')
        \<and> (\<forall>c \<in> set (tl (strip s)). is_digit c \<or> c = CHR ''_''))
   \<and> (\<exists>us us'. list_all is_space us \<and> list_all is_space us' \<and> s = us @ strip s @ us')
   \<and> (py_int s = Inl err \<longrightarrow> err = ValueError)
   \<and> (arg_nthreads a = None \<and> init ext a = Inr c \<longrightarrow>
        resolve_nthreads (environ ext) None = Inr (nthreads c)
        \<and> (\<exists>s ws. nthreads s = nthreads c \<and> engine_run ext s = Inr ws \<and> wcounts c = fst ws))
   \<and> (env ''OMP_NUM_THREADS'' = environ ext ''OMP_NUM_THREADS'' \<longrightarrow>
        init (ext\<lparr>environ := env\<rparr>) a = init ext a)
   \<and> (arg_nthreads a \<noteq> None \<longrightarrow> init (ext\<lparr>environ := env\<rparr>) a = init ext a)"
proof -
  have p1: "resolve_nthreads env None =
     py_int (case env ''OMP_NUM_THREADS'' of None \<Rightarrow> ''1'' | Some v \<Rightarrow> v)"
    by (simp add: resolve_nthreads_def getenv_def)
  have p2: "resolve_nthreads env None = Inr 1" if "env ''OMP_NUM_THREADS'' = None"
    using that by (simp add: resolve_nthreads_def getenv_def py_int_1)
  have p3: "py_int (ws @ str_int z @ ws') = Inr z"
    if "list_all is_space ws \<and> list_all is_space ws'"
    using that py_int_str_int by blast
  have p4: "resolve_nthreads env None = Inr z"
    if "list_all is_space ws \<and> list_all is_space ws'
        \<and> env ''OMP_NUM_THREADS'' = Some (ws @ str_int z @ ws')"
    using that py_int_str_int[of ws ws' z] by (simp add: resolve_nthreads_def getenv_def)
  have p5: "\<bar>z\<bar> = int (decimal_value (filter is_digit s))
        \<and> (z < 0 \<longrightarrow> hd (strip s) = CHR ''-'')
        \<and> strip s \<noteq> []
        \<and> (is_digit (hd (strip s)) \<or> hd (strip s) = CHR ''-'' \<or> hd (strip s) = CHR ''+'')
        \<and> (\<forall>c \<in> set (tl (strip s)). is_digit c \<or> c = CHR ''_'')"
    if "py_int s = Inr z"
    using py_int_sound[OF that] by (intro conjI)
  have p6: "\<exists>us us'. list_all is_space us \<and> list_all is_space us' \<and> s = us @ strip s @ us'"
    by (rule strip_decomposition)
  have p7: "err = ValueError" if "py_int s = Inl err"
    using that by (rule py_int_error)
  have p8: "resolve_nthreads (environ ext) None = Inr (nthreads c)
        \<and> (\<exists>s ws. nthreads s = nthreads c \<and> engine_run ext s = Inr ws \<and> wcounts c = fst ws)"
    if h: "arg_nthreads a = None \<and> init ext a = Inr c"
    using init_nthreads[of ext a c] h by simp
  have p9: "init (ext\<lparr>environ := env\<rparr>) a = init ext a"
    if "env ''OMP_NUM_THREADS'' = environ ext ''OMP_NUM_THREADS''"
    using that resolve_nthreads_environ[of env "environ ext" "arg_nthreads a"]
    by (simp add: init_def)
  have p10: "init (ext\<lparr>environ := env\<rparr>) a = init ext a" if "arg_nthreads a \<noteq> None"
    using that by (auto simp: init_def resolve_nthreads_def)
  show ?thesis
    apply (intro conjI)
             apply (rule p1)
            apply (rule impI, erule p2)
           apply (rule impI, erule p3)
          apply (rule impI, erule p4)
         apply (rule impI, erule p5)
        apply (rule p6)
       apply (rule impI, erule p7)
      apply (rule impI, erule p8)
     apply (rule impI, erule p9)
    apply (rule impI, erule p10)
    done
qed

theorem nthreads_resolved_once_witness:
  "resolve_nthreads (\<lambda>k. if k = ''OMP_NUM_THREADS'' then Some ''4'' else None) None = Inr 4
   \<and> resolve_nthreads (\<lambda>k. None) None = Inr 1
   \<and> list_all is_space [CHR '' ''] \<and> list_all is_space [CHR 0x0A]
   \<and> py_int ([CHR '' ''] @ str_int (- 12) @ [CHR 0x0A]) = Inr (- 12)
   \<and> resolve_nthreads
        (\<lambda>k. if k = ''OMP_NUM_THREADS'' then Some ([CHR '' ''] @ str_int 12 @ [CHR 0x0A])
             else None) None = Inr 12
   \<and> str_int 12 = ''12'' \<and> str_int (- 12) = ''-12''
   \<and> py_int ''+1_000'' = Inr 1000
   \<and> \<bar>1000\<bar> = int (decimal_value (filter is_digit ''+1_000''))
   \<and> py_int [CHR ''1'', CHR ''2'', CHR 0x1F] = Inl ValueError
   \<and> (\<exists>c. init example_externals example_arguments = Inr c \<and> nthreads c = 1
        \<and> (\<exists>s ws. nthreads s = 1 \<and> engine_run example_externals s = Inr ws
              \<and> wcounts c = fst ws))
   \<and> init (example_externals\<lparr>environ := (\<lambda>k. if k = ''HOME'' then Some ''/root'' else None)\<rparr>)
        example_arguments = init example_externals example_arguments
   \<and> init (example_externals\<lparr>environ := (\<lambda>k. Some ''8'')\<rparr>)
        (example_arguments\<lparr>arg_nthreads := Some 2\<rparr>) =
       init example_externals (example_arguments\<lparr>arg_nthreads := Some 2\<rparr>)"
proof -
  note T = nthreads_resolved_once
  let ?env4 = "\<lambda>k. if k = ''OMP_NUM_THREADS'' then Some ''4'' else None"
  let ?env12 = "\<lambda>k. if k = ''OMP_NUM_THREADS'' then Some ([CHR '' ''] @ str_int 12 @ [CHR 0x0A])
             else None"
  have sp: "list_all is_space [CHR '' '']" "list_all is_space [CHR 0x0A]"
    by (simp_all add: is_space_def)
  have four: "py_int ''4'' = Inr 4"
    by (simp add: py_int_def strip_def is_space_def parse_decimal_def digit_of_def)
  have a: "resolve_nthreads ?env4 None = Inr 4"
    using T[of ?env4, THEN conjunct1] four by simp
  have b: "resolve_nthreads (\<lambda>k. None) None = Inr 1"
    using T[of "\<lambda>k. None", THEN conjunct2, THEN conjunct1] by simp
  have n12: "py_int ([CHR '' ''] @ str_int (- 12) @ [CHR 0x0A]) = Inr (- 12)"
    using T[where ws = "[CHR '' '']" and ws' = "[CHR 0x0A]" and z = "- 12",
        THEN conjunct2, THEN conjunct2, THEN conjunct1] sp
    by simp
  have r12: "resolve_nthreads ?env12 None = Inr 12"
    using T[where env = ?env12 and ws = "[CHR '' '']" and ws' = "[CHR 0x0A]" and z = 12,
        THEN conjunct2, THEN conjunct2, THEN conjunct2, THEN conjunct1] sp
    by simp
  have s12: "str_int 12 = ''12''" "str_int (- 12) = ''-12''"
    by (simp_all add: str_int_def decimal.simps digit_char_def)
  have k: "py_int ''+1_000'' = Inr 1000"
    by (simp add: py_int_def strip_def is_space_def parse_decimal_def digit_of_def)
  have kv: "\<bar>1000\<bar> = int (decimal_value (filter is_digit ''+1_000''))"
    using T[where s = "''+1_000''" and z = 1000,
        THEN conjunct2, THEN conjunct2, THEN conjunct2, THEN conjunct2, THEN conjunct1] k
    by simp
  have bad: "py_int [CHR ''1'', CHR ''2'', CHR 0x1F] = Inl ValueError"
    by (simp add: py_int_def strip_def is_space_def parse_decimal_def digit_of_def)
  obtain c0 where c0: "init example_externals example_arguments = Inr c0"
    by (simp add: eval_defs)
  have na: "arg_nthreads example_arguments = None" by (simp add: example_arguments_def)
  have ee: "environ example_externals = (\<lambda>k. None)" by (simp add: example_externals_def)
  have c: "resolve_nthreads (environ example_externals) None = Inr (nthreads c0)
      \<and> (\<exists>s ws. nthreads s = nthreads c0 \<and> engine_run example_externals s = Inr ws
            \<and> wcounts c0 = fst ws)"
    using T[where a = example_arguments and ext = example_externals and c = c0,
        THEN conjunct2, THEN conjunct2, THEN conjunct2, THEN conjunct2, THEN conjunct2,
        THEN conjunct2, THEN conjunct2, THEN conjunct1] na c0
    by simp
  then have "resolve_nthreads (\<lambda>k. None) None = Inr (nthreads c0)" using ee by simp
  with b have c': "nthreads c0 = 1" by simp
  have d: "init (example_externals\<lparr>environ := (\<lambda>k. if k = ''HOME'' then Some ''/root'' else None)\<rparr>)
        example_arguments = init example_externals example_arguments"
    using T[where env = "\<lambda>k. if k = ''HOME'' then Some ''/root'' else None"
          and ext = example_externals and a = example_arguments,
        THEN conjunct2, THEN conjunct2, THEN conjunct2, THEN conjunct2, THEN conjunct2,
        THEN conjunct2, THEN conjunct2, THEN conjunct2, THEN conjunct1] ee
    by simp
  have e: "init (example_externals\<lparr>environ := (\<lambda>k. Some ''8'')\<rparr>)
        (example_arguments\<lparr>arg_nthreads := Some 2\<rparr>) =
       init example_externals (example_arguments\<lparr>arg_nthreads := Some 2\<rparr>)"
    using T[where env = "\<lambda>k. Some ''8''" and a = "example_arguments\<lparr>arg_nthreads := Some 2\<rparr>"
          and ext = example_externals,
        THEN conjunct2, THEN conjunct2, THEN conjunct2, THEN conjunct2, THEN conjunct2,
        THEN conjunct2, THEN conjunct2, THEN conjunct2, THEN conjunct2]
    by simp
  from c c' c0 have c'': "\<exists>c. init example_externals example_arguments = Inr c \<and> nthreads c = 1
        \<and> (\<exists>s ws. nthreads s = 1 \<and> engine_run example_externals s = Inr ws
              \<and> wcounts c = fst ws)"
    by auto
  from a b sp n12 r12 s12 k kv bad c'' d e show ?thesis by (intro conjI)
qed

end
